theory Spec2Isabelle
  imports Main
begin

section \<open>Python text and values\<close>

text \<open>
  A Python \<open>str\<close> is a sequence of Unicode code points, so a text is a list of
  code point numbers. \<open>py\<close> turns an ASCII literal into such a text.
\<close>

type_synonym pystr = "nat list"

definition py :: "string \<Rightarrow> pystr" where
  "py s = map of_char s"

text \<open>
  \<open>str.isspace\<close> for one code point, which is also what \<open>str.strip()\<close> removes and
  what \<open>\s\<close> matches in a text pattern: the ASCII controls 9 to 13 and 28 to 31, the
  space, U+0085, U+00A0, U+1680, U+2000 to U+200A, U+2028, U+2029, U+202F, U+205F
  and U+3000.
\<close>

definition isspace :: "nat \<Rightarrow> bool" where
  "isspace c \<longleftrightarrow>
     (9 \<le> c \<and> c \<le> 13) \<or> (28 \<le> c \<and> c \<le> 32) \<or> c = 133 \<or> c = 160 \<or> c = 5760 \<or>
     (8192 \<le> c \<and> c \<le> 8202) \<or> c = 8232 \<or> c = 8233 \<or> c = 8239 \<or> c = 8287 \<or>
     c = 12288"

definition strip :: "pystr \<Rightarrow> pystr" where
  "strip s = rev (dropWhile isspace (rev (dropWhile isspace s)))"

text \<open>
  \<open>ch.upper()\<close> for one code point; the result is a text. The letters a to z go to
  A to Z. Every other code point is left as it is: the program only ever tests
  whether an uppercased character is one of A to D and whether an uppercased text
  begins with one of them followed by \<open>)\<close>, and in Unicode only a to d and
  A to D have an uppercase form that is one of A to D, and only \<open>)\<close> has one
  that begins with \<open>)\<close>.
\<close>

definition upper_ch :: "nat \<Rightarrow> pystr" where
  "upper_ch c = (if 97 \<le> c \<and> c \<le> 122 then [c - 32] else [c])"

definition upper :: "pystr \<Rightarrow> pystr" where
  "upper s = concat (map upper_ch s)"

definition startswith :: "pystr \<Rightarrow> pystr \<Rightarrow> bool" where
  "startswith s p \<longleftrightarrow> take (length p) s = p"

text \<open>
  The values \<open>json.loads\<close> returns. A float carries the text that \<open>repr\<close> prints for
  it, which is all the program can observe of it. A dict is the list of its items,
  read through \<open>map_of\<close>; \<open>dict_get\<close> reads a key and \<open>dict_has\<close> is
  \<open>key in d\<close>.
\<close>

datatype pyval =
    PNone
  | PBool bool
  | PInt int
  | PFloat pystr
  | PStr pystr
  | PList "pyval list"
  | PDict "(pystr \<times> pyval) list"

definition dict_get :: "(pystr \<times> pyval) list \<Rightarrow> pystr \<Rightarrow> pyval option" where
  "dict_get d k = map_of d k"

definition dict_has :: "(pystr \<times> pyval) list \<Rightarrow> pystr \<Rightarrow> bool" where
  "dict_has d k \<longleftrightarrow> dict_get d k \<noteq> None"

text \<open>
  \<open>str(v)\<close>: a text is returned as it is, every other value prints through the
  builtin \<open>repr\<close>, which is taken as a parameter.
\<close>

definition py_str :: "(pyval \<Rightarrow> pystr) \<Rightarrow> pyval \<Rightarrow> pystr" where
  "py_str repr_of v = (case v of PStr s \<Rightarrow> s | _ \<Rightarrow> repr_of v)"

section \<open>The answer letter\<close>

definition LETTER_CHOICES :: "pystr list" where
  "LETTER_CHOICES = [py ''A'', py ''B'', py ''C'', py ''D'']"

text \<open>The loop \<open>for ch in s\<close> of \<open>extract_correct_letter\<close>.\<close>

fun first_letter :: "pystr \<Rightarrow> pystr" where
  "first_letter [] = []"
| "first_letter (ch # s) =
     (if upper_ch ch \<in> set LETTER_CHOICES then upper_ch ch else first_letter s)"

definition extract_correct_letter :: "pyval \<Rightarrow> pystr" where
  "extract_correct_letter answer_field =
     (case answer_field of
        PStr a \<Rightarrow> first_letter (strip a)
      | _ \<Rightarrow> [])"

text \<open>
  The characters the answer normalizer looks for, as the specification names them:
  one of A, B, C, D in either case.
\<close>

definition abcd :: "nat \<Rightarrow> bool" where
  "abcd c \<longleftrightarrow> c \<in> set (py ''ABCDabcd'')"

section \<open>Question records\<close>

text \<open>
  The dict that \<open>_parse_questions_list\<close> appends for one entry. \<open>options\<close> is
  \<open>None\<close> or the list of display texts; \<open>explanation\<close> is whatever value the
  entry holds under that key.
\<close>

record question_rec =
  question :: pystr
  answer_letter :: pystr
  options :: "pystr list option"
  explanation :: pyval

text \<open>
  One round of the inner loop \<open>for i, opt in enumerate(item["options"][:4])\<close>: the
  display text of option \<open>i\<close>. The index is below 4 there.
\<close>

definition label_option :: "(pyval \<Rightarrow> pystr) \<Rightarrow> nat \<Rightarrow> pyval \<Rightarrow> pystr" where
  "label_option repr_of i opt =
     (let t = strip (py_str repr_of opt) in
      if startswith (upper t) (LETTER_CHOICES ! i @ py '')'') then t
      else LETTER_CHOICES ! i @ py '') '' @ t)"

definition display_options :: "(pyval \<Rightarrow> pystr) \<Rightarrow> (pystr \<times> pyval) list \<Rightarrow> pystr list option" where
  "display_options repr_of item =
     (case dict_get item (py ''options'') of
        Some (PList opts) \<Rightarrow>
          if length opts \<ge> 4
          then Some (map (\<lambda>(i, opt). label_option repr_of i opt) (enumerate 0 (take 4 opts)))
          else None
      | _ \<Rightarrow> None)"

text \<open>
  The body of the loop \<open>for item in items\<close>: \<open>None\<close> where the source says
  \<open>continue\<close>, the appended record otherwise.
\<close>

definition parse_item :: "(pyval \<Rightarrow> pystr) \<Rightarrow> pyval \<Rightarrow> question_rec option" where
  "parse_item repr_of item =
     (case item of
        PDict d \<Rightarrow>
          (case (dict_get d (py ''question''), dict_get d (py ''answer'')) of
             (Some q, Some ans) \<Rightarrow>
               Some \<lparr> question = strip (py_str repr_of q),
                      answer_letter = extract_correct_letter ans,
                      options = display_options repr_of d,
                      explanation = (case dict_get d (py ''explanation'') of
                                       Some e \<Rightarrow> e | None \<Rightarrow> PStr []) \<rparr>
           | _ \<Rightarrow> None)
      | _ \<Rightarrow> None)"

fun parse_loop :: "(pyval \<Rightarrow> pystr) \<Rightarrow> question_rec list \<Rightarrow> pyval list \<Rightarrow> question_rec list" where
  "parse_loop repr_of parsed [] = parsed"
| "parse_loop repr_of parsed (item # items) =
     (case parse_item repr_of item of
        None \<Rightarrow> parse_loop repr_of parsed items
      | Some q \<Rightarrow> parse_loop repr_of (parsed @ [q]) items)"

definition parse_questions_list :: "(pyval \<Rightarrow> pystr) \<Rightarrow> pyval list \<Rightarrow> question_rec list" where
  "parse_questions_list repr_of items = parse_loop repr_of [] items"

text \<open>
  A raw entry the loader keeps, in the specification's words: a mapping that has
  both a \<open>question\<close> and an \<open>answer\<close> key.
\<close>

definition valid_entry :: "pyval \<Rightarrow> bool" where
  "valid_entry item =
     (case item of
        PDict d \<Rightarrow> dict_has d (py ''question'') \<and> dict_has d (py ''answer'')
      | _ \<Rightarrow> False)"

definition is_dict :: "pyval \<Rightarrow> bool" where
  "is_dict v = (case v of PDict d \<Rightarrow> True | _ \<Rightarrow> False)"

section \<open>The application state\<close>

text \<open>
  The data fields of \<open>QuizApp\<close>, the two mode variables and \<open>choice_var\<close>, the
  variable the four radio buttons write. Window texts and button states are left out.
\<close>

record quiz_app =
  questions :: "question_rec list"
  user_answers :: "int \<rightharpoonup> pystr"
  current_index :: int
  metadata :: "(pystr \<times> pyval) list"
  learning_mode :: bool
  slides_mode :: bool
  choice_var :: pystr

definition load_question :: "int \<Rightarrow> quiz_app \<Rightarrow> quiz_app" where
  "load_question idx self =
     (if \<not> (0 \<le> idx \<and> idx < int (length (questions self))) then self
      else self\<lparr> current_index := idx,
                 choice_var := (case user_answers self idx of None \<Rightarrow> [] | Some a \<Rightarrow> a) \<rparr>)"

definition record_choice :: "quiz_app \<Rightarrow> quiz_app" where
  "record_choice self =
     self\<lparr> user_answers := (user_answers self)(current_index self \<mapsto> choice_var self) \<rparr>"

text \<open>
  Recording a letter for the current question: the choice variable takes the
  value and \<open>record_choice\<close> runs, as when a radio button is pressed.
\<close>

definition record_answer :: "pystr \<Rightarrow> quiz_app \<Rightarrow> quiz_app" where
  "record_answer letter self = record_choice (self\<lparr> choice_var := letter \<rparr>)"

section \<open>Loading a document\<close>

datatype load_error =
    NoQuestionsArray
  | UnsupportedStructure
  | NoValidQuestions

text \<open>
  \<open>cfg.get(section, {})\<close> followed by the test that the section is a dict whose
  \<open>key\<close> holds a bool: the flag, or \<open>None\<close> when there is none to apply.
\<close>

definition config_flag :: "(pystr \<times> pyval) list \<Rightarrow> pystr \<Rightarrow> pystr \<Rightarrow> bool option" where
  "config_flag cfg section key =
     (case dict_get cfg section of
        Some (PDict s) \<Rightarrow> (case dict_get s key of Some (PBool b) \<Rightarrow> Some b | _ \<Rightarrow> None)
      | _ \<Rightarrow> None)"

text \<open>
  The tail of \<open>_load_from_data\<close>, from \<open>if not parsed\<close> on: the error, or the
  assignments under the comment "Commit to UI state" and the first question.
\<close>

definition commit_parsed ::
  "question_rec list \<Rightarrow> bool option \<Rightarrow> bool option \<Rightarrow> quiz_app \<Rightarrow> (load_error + unit) \<times> quiz_app" where
  "commit_parsed parsed set_learning set_slides self =
     (if parsed = [] then (Inl NoValidQuestions, self)
      else (Inr (),
            load_question 0
              (self\<lparr> questions := parsed,
                     user_answers := Map.empty,
                     current_index := 0,
                     learning_mode := (case set_learning of Some b \<Rightarrow> b | None \<Rightarrow> learning_mode self),
                     slides_mode := (case set_slides of Some b \<Rightarrow> b | None \<Rightarrow> slides_mode self) \<rparr>)))"

text \<open>
  \<open>_load_from_data\<close>. The result pairs the raised error (\<open>Inl\<close>) or normal return
  (\<open>Inr\<close>) with the state the object is left in.
\<close>

definition load_from_data ::
  "(pyval \<Rightarrow> pystr) \<Rightarrow> pyval \<Rightarrow> quiz_app \<Rightarrow> (load_error + unit) \<times> quiz_app" where
  "load_from_data repr_of data self0 =
     (let self1 = self0\<lparr> metadata := [] \<rparr> in
      case data of
        PList items \<Rightarrow> commit_parsed (parse_questions_list repr_of items) None None self1
      | PDict d \<Rightarrow>
          (case dict_get d (py ''questions'') of
             Some (PList qs) \<Rightarrow>
               (let parsed = parse_questions_list repr_of qs;
                    self2 = (case dict_get d (py ''metadata'') of
                               Some (PDict md) \<Rightarrow> self1\<lparr> metadata := md \<rparr>
                             | _ \<Rightarrow> self1);
                    cfg = (case dict_get d (py ''config'') of
                             Some (PDict c) \<Rightarrow> Some c | None \<Rightarrow> Some [] | _ \<Rightarrow> None);
                    set_learning = (case cfg of
                             Some c \<Rightarrow> config_flag c (py ''learning_mode'') (py ''instant_feedback'')
                           | None \<Rightarrow> None);
                    set_slides = (case cfg of
                             Some c \<Rightarrow> config_flag c (py ''slides_mode'') (py ''enabled'')
                           | None \<Rightarrow> None)
                in commit_parsed parsed set_learning set_slides self2)
           | _ \<Rightarrow> (Inl NoQuestionsArray, self1))
      | _ \<Rightarrow> (Inl UnsupportedStructure, self1))"

section \<open>Navigation and progress\<close>

definition next_question :: "quiz_app \<Rightarrow> quiz_app" where
  "next_question self =
     (if current_index self < int (length (questions self)) - 1
      then load_question (current_index self + 1)
             (self\<lparr> current_index := current_index self + 1 \<rparr>)
      else self)"

definition prev_question :: "quiz_app \<Rightarrow> quiz_app" where
  "prev_question self =
     (if current_index self > 0
      then load_question (current_index self - 1)
             (self\<lparr> current_index := current_index self - 1 \<rparr>)
      else self)"

text \<open>
  The test \<open>i not in self.user_answers or not self.user_answers[i]\<close> of
  \<open>jump_unanswered\<close>, and the test \<open>self.user_answers.get(i)\<close> of
  \<open>progress_text\<close>; a text is false when it is empty.
\<close>

definition unanswered :: "(int \<rightharpoonup> pystr) \<Rightarrow> int \<Rightarrow> bool" where
  "unanswered ua i = (case ua i of None \<Rightarrow> True | Some a \<Rightarrow> a = [])"

definition counted :: "(int \<rightharpoonup> pystr) \<Rightarrow> int \<Rightarrow> bool" where
  "counted ua i = (case ua i of None \<Rightarrow> False | Some a \<Rightarrow> a \<noteq> [])"

text \<open>The loop \<open>for i in range(len(self.questions))\<close> of \<open>jump_unanswered\<close>.\<close>

fun first_unanswered :: "(int \<rightharpoonup> pystr) \<Rightarrow> int list \<Rightarrow> int option" where
  "first_unanswered ua [] = None"
| "first_unanswered ua (i # rest) =
     (if unanswered ua i then Some i else first_unanswered ua rest)"

definition range_len :: "quiz_app \<Rightarrow> int list" where
  "range_len self = map int [0 ..< length (questions self)]"

text \<open>
  \<open>jump_unanswered\<close>: the index it moved to with the new state, or \<open>None\<close> with
  the state as it was when the "All answered" box is shown instead.
\<close>

definition jump_unanswered :: "quiz_app \<Rightarrow> int option \<times> quiz_app" where
  "jump_unanswered self =
     (case first_unanswered (user_answers self) (range_len self) of
        Some i \<Rightarrow> (Some i, load_question i (self\<lparr> current_index := i \<rparr>))
      | None \<Rightarrow> (None, self))"

text \<open>Decimal digits of a natural number and \<open>str\<close> of an integer.\<close>

fun str_nat :: "nat \<Rightarrow> pystr" where
  "str_nat n = (if n < 10 then [48 + n] else str_nat (n div 10) @ [48 + n mod 10])"

declare str_nat.simps [simp del]

definition str_int :: "int \<Rightarrow> pystr" where
  "str_int i = (if i < 0 then py ''-'' @ str_nat (nat (- i)) else str_nat (nat i))"

definition progress_answered :: "quiz_app \<Rightarrow> nat" where
  "progress_answered self =
     length (filter (\<lambda>i. counted (user_answers self) i) (range_len self))"

definition progress_text :: "quiz_app \<Rightarrow> pystr" where
  "progress_text self =
     (let total = length (questions self);
          answered = progress_answered self;
          qn = (if total > 0 then current_index self + 1 else 0)
      in py ''Answered '' @ str_nat answered @ py ''/'' @ str_nat total @
         py '' | Q '' @ str_int qn @ py ''/'' @ str_nat total)"

section \<open>The percentage\<close>

text \<open>
  The score line prints a Python float with one decimal. A float that is not
  negative is a pair \<open>(m, e)\<close> standing for \<open>m * 2 ^ e\<close>, with a mantissa of at
  most 53 bits once rounded. The exponent is not bounded: a list has fewer than
  \<open>2 ^ 63\<close> elements, so no value met here is near the ends of the float range.
\<close>

type_synonym pyfloat = "nat \<times> int"

text \<open>\<open>a / b\<close> rounded to the nearest integer, a tie going to the even one.\<close>

definition rhe_div :: "nat \<Rightarrow> nat \<Rightarrow> nat" where
  "rhe_div a b =
     (let n = a div b; r = a mod b
      in if 2 * r < b then n
         else if 2 * r > b then n + 1
         else if even n then n else n + 1)"

fun bit_length :: "nat \<Rightarrow> nat" where
  "bit_length n = (if n = 0 then 0 else Suc (bit_length (n div 2)))"

declare bit_length.simps [simp del]

text \<open>
  The float nearest to \<open>p / q\<close>, ties to even, for \<open>q > 0\<close>: the binary exponent
  \<open>l\<close> of the quotient is found from the bit lengths, and the quotient is rounded
  to an integer multiple of \<open>2 ^ (l - 52)\<close>.
\<close>

definition round_quot :: "nat \<Rightarrow> nat \<Rightarrow> pyfloat" where
  "round_quot p q =
     (if p = 0 then (0, 0)
      else
        (let d = int (bit_length p) - int (bit_length q);
             l = (if (if d \<ge> 0 then p \<ge> q * 2 ^ nat d else p * 2 ^ nat (- d) \<ge> q)
                  then d else d - 1);
             e = l - 52;
             m = (if e \<ge> 0 then rhe_div p (q * 2 ^ nat e) else rhe_div (p * 2 ^ nat (- e)) q)
         in (m, e)))"

text \<open>
  \<open>float(n)\<close> for an int, the product and the quotient of two floats, and the
  true division \<open>c / t\<close> of two ints, each rounded once as IEEE 754 and Python do.
  The divisor is never zero here: the scoring runs on a loaded quiz only.
\<close>

definition float_of_nat :: "nat \<Rightarrow> pyfloat" where
  "float_of_nat n = round_quot n 1"

definition fmul :: "pyfloat \<Rightarrow> pyfloat \<Rightarrow> pyfloat" where
  "fmul a b = (let (m, e) = round_quot (fst a * fst b) 1 in (m, e + snd a + snd b))"

definition fdiv :: "pyfloat \<Rightarrow> pyfloat \<Rightarrow> pyfloat" where
  "fdiv a b = (let (m, e) = round_quot (fst a) (fst b) in (m, e + snd a - snd b))"

definition int_truediv :: "nat \<Rightarrow> nat \<Rightarrow> pyfloat" where
  "int_truediv c t = round_quot c t"

text \<open>
  The format \<open>.1f\<close>: the number of tenths nearest to the exact value of the float,
  a tie going to the even one, printed as the whole part, a point and one digit.
\<close>

definition tenths :: "pyfloat \<Rightarrow> nat" where
  "tenths x =
     (if snd x \<ge> 0 then 10 * fst x * 2 ^ nat (snd x)
      else rhe_div (10 * fst x) (2 ^ nat (- snd x)))"

definition format_1f :: "pyfloat \<Rightarrow> pystr" where
  "format_1f x = str_nat (tenths x div 10) @ py ''.'' @ str_nat (tenths x mod 10)"

text \<open>
  \<open>100.0*correct/total\<close> of \<open>quiz_app.py\<close> and \<open>correct / total * 100.0\<close> of the
  earlier revisions, with \<open>n\<close> for the total.
\<close>

definition pct_main :: "nat \<Rightarrow> nat \<Rightarrow> pyfloat" where
  "pct_main correct n =
     fdiv (fmul (float_of_nat 100) (float_of_nat correct)) (float_of_nat n)"

definition pct_v1 :: "nat \<Rightarrow> nat \<Rightarrow> pyfloat" where
  "pct_v1 correct n = fmul (int_truediv correct n) (float_of_nat 100)"

section \<open>Scoring\<close>

text \<open>\<open>sep.join(lines)\<close>.\<close>

fun join :: "pystr \<Rightarrow> pystr list \<Rightarrow> pystr" where
  "join sep [] = []"
| "join sep [l] = l"
| "join sep (l # ls) = l @ sep @ join sep ls"

text \<open>
  The marks of the report: U+2714 and U+2718 in \<open>quiz_app.py\<close>, U+2713 and U+2717
  in the earlier revisions.
\<close>

definition heavy_check :: pystr where "heavy_check = [10004]"
definition heavy_cross :: pystr where "heavy_cross = [10008]"
definition check_mark :: pystr where "check_mark = [10003]"
definition cross_mark :: pystr where "cross_mark = [10007]"

text \<open>
  One round of the loop of \<open>submit_quiz\<close> in \<open>quiz_app.py\<close>: whether the
  question counts as correct, and its line of the report.
\<close>

definition submit_row :: "(int \<rightharpoonup> pystr) \<Rightarrow> nat \<Rightarrow> question_rec \<Rightarrow> bool \<times> pystr" where
  "submit_row ua i q =
     (let user = (case ua (int i) of None \<Rightarrow> py ''(blank)'' | Some a \<Rightarrow> a);
          letter = answer_letter q;
          ok = (user = letter)
      in (ok,
          py ''Q'' @ str_nat (i + 1) @ py '': '' @ (if ok then heavy_check else heavy_cross) @
          py ''  Your: '' @ (if user \<noteq> [] then user else py ''(blank)'') @
          py ''   Correct: '' @ letter))"

fun submit_loop ::
  "(int \<rightharpoonup> pystr) \<Rightarrow> nat \<times> pystr list \<Rightarrow> (nat \<times> question_rec) list \<Rightarrow> nat \<times> pystr list" where
  "submit_loop ua (correct, lines) [] = (correct, lines)"
| "submit_loop ua (correct, lines) ((i, q) # rest) =
     (let (ok, item) = submit_row ua i q
      in submit_loop ua (if ok then correct + 1 else correct, lines @ [item]) rest)"

text \<open>
  \<open>submit_quiz\<close> of \<open>quiz_app.py\<close>: \<open>None\<close> when no quiz is loaded, otherwise the
  number of correct answers and the summary text.
\<close>

definition submit_quiz :: "quiz_app \<Rightarrow> (nat \<times> pystr) option" where
  "submit_quiz self =
     (if questions self = [] then None
      else
        (let total = length (questions self);
             (correct, lines) =
               submit_loop (user_answers self) (0, [py ''Results:'' @ [10]])
                 (enumerate 0 (questions self));
             score = [10] @ py ''Score: '' @ str_nat correct @ py ''/'' @ str_nat total @
                     py ''  ('' @ format_1f (pct_main correct total) @ py ''%)'' @ [10]
         in Some (correct, join [10] (lines @ [score]))))"

text \<open>
  The earlier revisions (\<open>quiz_app_v1.2.py\<close> and the two files under \<open>demo\<close>)
  score in the same way as each other: a row per question, then the text. They
  first ask whether to submit with questions unanswered; the functions below are
  the scoring that follows once the user goes on.
\<close>

definition ljust :: "nat \<Rightarrow> pystr \<Rightarrow> pystr" where
  "ljust w s = s @ replicate (w - length s) 32"

definition score_row_v1 :: "(int \<rightharpoonup> pystr) \<Rightarrow> nat \<Rightarrow> question_rec \<Rightarrow> bool \<times> pystr" where
  "score_row_v1 ua idx q =
     (let user_letter = (case ua (int idx) of None \<Rightarrow> [] | Some a \<Rightarrow> a);
          correct_letter = answer_letter q;
          is_correct = (if correct_letter \<noteq> [] then user_letter = correct_letter else False)
      in (is_correct,
          ljust 2 (str_nat (idx + 1)) @ py '' '' @
          ljust 5 (if user_letter \<noteq> [] then user_letter else py ''-'') @ py '' '' @
          ljust 7 (if correct_letter \<noteq> [] then correct_letter else py ''?'') @ py '' '' @
          (if is_correct then check_mark else cross_mark)))"

fun score_loop_v1 ::
  "(int \<rightharpoonup> pystr) \<Rightarrow> nat \<times> pystr list \<Rightarrow> (nat \<times> question_rec) list \<Rightarrow> nat \<times> pystr list" where
  "score_loop_v1 ua (correct, rows) [] = (correct, rows)"
| "score_loop_v1 ua (correct, rows) ((idx, q) # rest) =
     (let (is_correct, row) = score_row_v1 ua idx q
      in score_loop_v1 ua (if is_correct then correct + 1 else correct, rows @ [row]) rest)"

definition submit_quiz_v1 :: "quiz_app \<Rightarrow> (nat \<times> pystr) option" where
  "submit_quiz_v1 self =
     (if questions self = [] then None
      else
        (let (correct, rows) =
               score_loop_v1 (user_answers self) (0, []) (enumerate 0 (questions self));
             total = length (questions self);
             pct = pct_v1 correct total;
             result_lines =
               [py ''Score: '' @ str_nat correct @ py ''/'' @ str_nat total @
                  py ''  ('' @ format_1f pct @ py ''%)'',
                [],
                py ''#  Your  Correct  '' @ check_mark @ py ''/'' @ cross_mark] @ rows
         in Some (correct, join [10] result_lines)))"

section \<open>The loose JSON reader\<close>

text \<open>
  \<open>_read_json_loose\<close> reads the file as text with the codec \<open>utf-8-sig\<close>, which
  drops one leading U+FEFF, and with every line ending turned into a line feed,
  rewrites the text with three regular expression substitutions and hands the
  result to \<open>json.loads\<close>. Each substitution is
  written out as the left-to-right scan that \<open>re.sub\<close> performs.
\<close>

definition strip_bom :: "pystr \<Rightarrow> pystr" where
  "strip_bom content =
     (case content of [] \<Rightarrow> [] | c # rest \<Rightarrow> if c = 65279 then rest else content)"

text \<open>
  \<open>read_text\<close> opens the file in text mode, where every line ending is handed
  on as a line feed: a carriage return with a line feed after it and a carriage
  return on its own both become one line feed.
\<close>

fun universal_newlines :: "pystr \<Rightarrow> pystr" where
  "universal_newlines [] = []"
| "universal_newlines [c] = (if c = 13 then [10] else [c])"
| "universal_newlines (c # d # rest) =
     (if c = 13 \<and> d = 10 then 10 # universal_newlines rest
      else if c = 13 then 10 # universal_newlines (d # rest)
      else c # universal_newlines (d # rest))"

text \<open>
  \<open>Path(path).read_text(encoding="utf-8-sig")\<close>, from the content of the file on:
  \<open>content\<close> is the bytes of the file decoded as UTF-8, the mark included.
\<close>

definition read_text :: "pystr \<Rightarrow> pystr" where
  "read_text content = universal_newlines (strip_bom content)"

text \<open>The character class \<open>[\s\[{,]\<close>.\<close>

definition comment_lead :: "nat \<Rightarrow> bool" where
  "comment_lead c \<longleftrightarrow> isspace c \<or> c \<in> set (py ''[{,'')"

text \<open>
  \<open>.*?$\<close> under \<open>re.MULTILINE\<close>: the dot matches everything but the newline, and
  \<open>$\<close> holds before a newline and at the end, so the match runs up to the next
  newline, which stays.
\<close>

definition to_eol :: "pystr \<Rightarrow> pystr" where
  "to_eol s = dropWhile (\<lambda>c. c \<noteq> 10) s"

text \<open>
  \<open>re.sub(r'(^|[\s\[{,])//.*?$', r'\1', text, flags=re.MULTILINE)\<close>. The flag
  \<open>bol\<close> says that the position is the start of the text or follows a newline,
  where \<open>^\<close> holds. A match keeps its group, which is empty or the one character
  before the slashes.
\<close>

function strip_line_comments :: "bool \<Rightarrow> pystr \<Rightarrow> pystr" where
  "strip_line_comments bol [] = []"
| "strip_line_comments bol (c # rest) =
     (if bol \<and> startswith (c # rest) (py ''//'')
      then strip_line_comments False (to_eol (drop 1 rest))
      else if comment_lead c \<and> startswith rest (py ''//'')
      then c # strip_line_comments False (to_eol (drop 2 rest))
      else c # strip_line_comments (c = 10) rest)"
  by pat_completeness auto
termination
  by (relation "measure (\<lambda>(bol, s). length s)")
     (auto simp: to_eol_def intro: le_less_trans [OF length_dropWhile_le])

text \<open>
  \<open>.*?\*/\<close> under \<open>re.DOTALL\<close>: the number of characters up to and including the
  first \<open>*/\<close>, if there is one.
\<close>

fun find_close :: "pystr \<Rightarrow> nat option" where
  "find_close [] = None"
| "find_close (c # rest) =
     (if startswith (c # rest) (py ''*/'') then Some 2
      else map_option Suc (find_close rest))"

text \<open>\<open>re.sub(r'/\*.*?\*/', '', text, flags=re.DOTALL)\<close>.\<close>

function strip_block_comments :: "pystr \<Rightarrow> pystr" where
  "strip_block_comments [] = []"
| "strip_block_comments (c # rest) =
     (if startswith (c # rest) (py ''/*'')
      then (case find_close (drop 1 rest) of
              Some n \<Rightarrow> strip_block_comments (drop n (drop 1 rest))
            | None \<Rightarrow> c # strip_block_comments rest)
      else c # strip_block_comments rest)"
  by pat_completeness auto
termination
  by (relation "measure length") auto

text \<open>
  \<open>re.sub(r',\s*([\]}])', r'\1', text)\<close>: a comma, the white space after it and a
  closing bracket or brace are replaced by the bracket or brace.
\<close>

function strip_trailing_commas :: "pystr \<Rightarrow> pystr" where
  "strip_trailing_commas [] = []"
| "strip_trailing_commas (c # rest) =
     (if c = 44
      then (case dropWhile isspace rest of
              [] \<Rightarrow> c # strip_trailing_commas rest
            | b # after \<Rightarrow>
                if b = 93 \<or> b = 125 then b # strip_trailing_commas after
                else c # strip_trailing_commas rest)
      else c # strip_trailing_commas rest)"
  by pat_completeness auto
termination
proof (relation "measure length", goal_cases)
  case (3 c rest b after)
  have "length (b # after) \<le> length rest"
    using length_dropWhile_le [of isspace rest] 3 by simp
  then show ?case by simp
qed simp_all

text \<open>The three substitutions, in the order of the source.\<close>

definition substitutions :: "pystr \<Rightarrow> pystr" where
  "substitutions t = strip_trailing_commas (strip_block_comments (strip_line_comments True t))"

text \<open>The text that \<open>_read_json_loose\<close> hands to \<open>json.loads\<close>.\<close>

definition loose_text :: "pystr \<Rightarrow> pystr" where
  "loose_text content = substitutions (read_text content)"

text \<open>
  \<open>_read_json_loose\<close>, from the decoded content of the file on. \<open>json.loads\<close> is
  the library's parser and is taken as a parameter.
\<close>

definition read_json_loose :: "(pystr \<Rightarrow> 'r) \<Rightarrow> pystr \<Rightarrow> 'r" where
  "read_json_loose json_loads content = json_loads (loose_text content)"

text \<open>
  Where the three patterns match, stated on their own: a \<open>//\<close> at the start of a
  line or right after white space, \<open>[\<close>, \<open>{\<close> or a comma; a \<open>/*\<close> with a \<open>*/\<close>
  somewhere after it; a comma followed by optional white space and \<open>]\<close> or \<open>}\<close>.
\<close>

fun line_comment_in :: "bool \<Rightarrow> pystr \<Rightarrow> bool" where
  "line_comment_in bol [] = False"
| "line_comment_in bol (c # rest) =
     ((bol \<and> startswith (c # rest) (py ''//'')) \<or>
      (comment_lead c \<and> startswith rest (py ''//'')) \<or>
      line_comment_in (c = 10) rest)"

fun block_comment_in :: "pystr \<Rightarrow> bool" where
  "block_comment_in [] = False"
| "block_comment_in (c # rest) =
     ((startswith (c # rest) (py ''/*'') \<and> find_close (drop 1 rest) \<noteq> None) \<or>
      block_comment_in rest)"

fun trailing_comma_in :: "pystr \<Rightarrow> bool" where
  "trailing_comma_in [] = False"
| "trailing_comma_in (c # rest) =
     ((c = 44 \<and> (case dropWhile isspace rest of [] \<Rightarrow> False | b # after \<Rightarrow> b = 93 \<or> b = 125)) \<or>
      trailing_comma_in rest)"

text \<open>
  The entries of a raw document, in the specification's words: the document itself
  when it is a sequence, its \<open>questions\<close> sequence when it is a mapping that has
  one, and none otherwise.
\<close>

definition document_entries :: "pyval \<Rightarrow> pyval list option" where
  "document_entries data =
     (case data of
        PList items \<Rightarrow> Some items
      | PDict d \<Rightarrow>
          (case dict_get d (py ''questions'') of Some (PList qs) \<Rightarrow> Some qs | _ \<Rightarrow> None)
      | _ \<Rightarrow> None)"

section \<open>What the user can do\<close>

text \<open>
  The callbacks of the window that change the state: opening a document (from a
  file or from the library; a load that raises is caught and leaves the state as
  it then is), pressing one of the four radio buttons, the three navigation
  buttons, and the two mode switches. A radio button stores its own letter in the
  choice variable and runs \<open>record_choice\<close>; there is no button beyond the fourth.
  \<open>run\<close> is a session: the state after a sequence of such events, from the state
  that \<open>__init__\<close> sets up.
\<close>

datatype event =
    Open pyval
  | Pick nat
  | Next
  | Previous
  | Jump
  | ToggleLearning
  | ToggleSlides

fun step :: "(pyval \<Rightarrow> pystr) \<Rightarrow> quiz_app \<Rightarrow> event \<Rightarrow> quiz_app" where
  "step repr_of self (Open data) = snd (load_from_data repr_of data self)"
| "step repr_of self (Pick i) =
     (if i < 4 then record_choice (self\<lparr> choice_var := LETTER_CHOICES ! i \<rparr>) else self)"
| "step repr_of self Next = next_question self"
| "step repr_of self Previous = prev_question self"
| "step repr_of self Jump = snd (jump_unanswered self)"
| "step repr_of self ToggleLearning = self\<lparr> learning_mode := \<not> learning_mode self \<rparr>"
| "step repr_of self ToggleSlides = self\<lparr> slides_mode := \<not> slides_mode self \<rparr>"

section \<open>Starting state and sample documents\<close>

text \<open>The fields as \<open>QuizApp.__init__\<close> sets them.\<close>

definition init_app :: quiz_app where
  "init_app =
     \<lparr> questions = [], user_answers = Map.empty, current_index = 0, metadata = [],
       learning_mode = False, slides_mode = False, choice_var = [] \<rparr>"

definition run :: "(pyval \<Rightarrow> pystr) \<Rightarrow> event list \<Rightarrow> quiz_app" where
  "run repr_of events = foldl (step repr_of) init_app events"

text \<open>
  What holds of every session: a recorded answer is one of the four letters, and
  the answer letter of a loaded question is empty or one of the four letters.
\<close>

definition letters_only :: "quiz_app \<Rightarrow> bool" where
  "letters_only self \<longleftrightarrow>
     (\<forall>i a. user_answers self i = Some a \<longrightarrow> a \<in> set LETTER_CHOICES) \<and>
     (\<forall>q \<in> set (questions self). answer_letter q = [] \<or> answer_letter q \<in> set LETTER_CHOICES)"

text \<open>
  The document of the specification's loading scenario, a flat list of two
  entries, and the same two entries wrapped in a mapping with metadata.
\<close>

definition scenario_entries :: "pyval list" where
  "scenario_entries =
     [PDict [(py ''question'', PStr (py ''Q1'')), (py ''answer'', PStr (py ''B. x''))],
      PDict [(py ''question'', PStr (py ''Q2'')), (py ''answer'', PStr (py ''C'')),
             (py ''options'', PList [PStr (py ''a''), PStr (py ''b''), PStr (py ''c''),
                                      PStr (py ''d'')])]]"

definition scenario_document :: pyval where
  "scenario_document = PList scenario_entries"

definition scenario_wrapped :: pyval where
  "scenario_wrapped =
     PDict [(py ''metadata'', PDict [(py ''title'', PStr (py ''Sample''))]),
            (py ''questions'', PList scenario_entries)]"

text \<open>
  A document with an answer field that names none of the four letters, followed
  by the entries of the loading scenario.
\<close>

definition undetermined_document :: pyval where
  "undetermined_document =
     PList (PDict [(py ''question'', PStr (py ''Q0'')), (py ''answer'', PStr (py ''E''))] #
            scenario_entries)"

text \<open>The two records that both documents load to.\<close>

definition scenario_questions :: "question_rec list" where
  "scenario_questions =
     [\<lparr> question = py ''Q1'', answer_letter = py ''B'', options = None,
        explanation = PStr [] \<rparr>,
      \<lparr> question = py ''Q2'', answer_letter = py ''C'',
        options = Some [py ''A) a'', py ''B) b'', py ''C) c'', py ''D) d''],
        explanation = PStr [] \<rparr>]"

section \<open>The answer normalizer scans for the first letter\<close>

lemma letter_iff_abcd: "upper_ch c \<in> set LETTER_CHOICES \<longleftrightarrow> abcd c"
  by (auto simp: upper_ch_def LETTER_CHOICES_def abcd_def py_def)

lemma isspace_not_abcd: "isspace c \<Longrightarrow> \<not> abcd c"
  by (auto simp: isspace_def abcd_def py_def)

lemma first_letter_none: "\<forall>c \<in> set s. \<not> abcd c \<Longrightarrow> first_letter s = []"
  by (induction s) (simp_all add: letter_iff_abcd)

lemma first_letter_first:
  "\<forall>x \<in> set pre. \<not> abcd x \<Longrightarrow> abcd c \<Longrightarrow> first_letter (pre @ c # post) = upper_ch c"
  by (induction pre) (simp_all add: letter_iff_abcd)

lemma first_letter_append:
  "\<forall>c \<in> set b. \<not> abcd c \<Longrightarrow> first_letter (a @ b) = first_letter a"
  by (induction a) (simp_all add: first_letter_none)

lemma first_letter_dropWhile: "first_letter (dropWhile isspace s) = first_letter s"
  by (induction s) (simp_all add: letter_iff_abcd isspace_not_abcd)

text \<open>Stripping removes white space only, so it never changes the letter found.\<close>

lemma first_letter_strip: "first_letter (strip s) = first_letter s"
proof -
  let ?t = "dropWhile isspace s"
  have split: "?t = rev (dropWhile isspace (rev ?t)) @ rev (takeWhile isspace (rev ?t))"
    by (metis rev_append rev_rev_ident takeWhile_dropWhile_id)
  have "\<forall>c \<in> set (rev (takeWhile isspace (rev ?t))). \<not> abcd c"
    by (auto dest: set_takeWhileD isspace_not_abcd)
  then have "first_letter (rev (dropWhile isspace (rev ?t)) @ rev (takeWhile isspace (rev ?t)))
      = first_letter (rev (dropWhile isspace (rev ?t)))"
    by (rule first_letter_append)
  with split have "first_letter (rev (dropWhile isspace (rev ?t))) = first_letter ?t"
    by simp
  then show ?thesis
    by (simp add: strip_def first_letter_dropWhile)
qed

text \<open>
  Claim C3. A value that is not a text gives the empty text. A text none of whose
  characters is one of A, B, C, D in either case gives the empty text. A text
  whose first such character is \<open>c\<close>, whatever follows it, gives \<open>c\<close> uppercased,
  which is one of the four letters; so does, in particular, a text in which \<open>c\<close>
  is the only such character.
\<close>

theorem extract_correct_letter_scan:
  "((\<forall>a. v \<noteq> PStr a) \<longrightarrow> extract_correct_letter v = []) \<and>
   ((\<forall>x \<in> set s. \<not> abcd x) \<longrightarrow> extract_correct_letter (PStr s) = []) \<and>
   ((\<forall>x \<in> set pre. \<not> abcd x) \<and> abcd c \<longrightarrow>
      extract_correct_letter (PStr (pre @ c # post)) = upper_ch c \<and>
      upper_ch c \<in> set LETTER_CHOICES) \<and>
   ((\<forall>x \<in> set pre \<union> set post. \<not> abcd x) \<and> abcd c \<longrightarrow>
      extract_correct_letter (PStr (pre @ c # post)) = upper_ch c)"
proof (intro conjI impI)
  assume "\<forall>a. v \<noteq> PStr a"
  then show "extract_correct_letter v = []"
    by (cases v) (simp_all add: extract_correct_letter_def)
next
  assume "\<forall>x \<in> set s. \<not> abcd x"
  then show "extract_correct_letter (PStr s) = []"
    by (simp add: extract_correct_letter_def first_letter_strip first_letter_none)
next
  assume "(\<forall>x \<in> set pre. \<not> abcd x) \<and> abcd c"
  then show "extract_correct_letter (PStr (pre @ c # post)) = upper_ch c"
    by (simp add: extract_correct_letter_def first_letter_strip first_letter_first)
next
  assume "(\<forall>x \<in> set pre. \<not> abcd x) \<and> abcd c"
  then show "upper_ch c \<in> set LETTER_CHOICES"
    by (simp add: letter_iff_abcd)
next
  assume "(\<forall>x \<in> set pre \<union> set post. \<not> abcd x) \<and> abcd c"
  then show "extract_correct_letter (PStr (pre @ c # post)) = upper_ch c"
    by (simp add: extract_correct_letter_def first_letter_strip first_letter_first)
qed

theorem extract_correct_letter_scan_witness:
  "extract_correct_letter (PInt 2) = [] \<and>
   extract_correct_letter (PStr (py ''x - y'')) = [] \<and>
   extract_correct_letter (PStr (py '' 1. b) Dan'')) = py ''B'' \<and>
   extract_correct_letter (PStr (py ''the c.'')) = py ''C''"
  using extract_correct_letter_scan
      [of "PInt 2" "py ''x - y''" "py '' 1. ''" "of_char CHR ''b''" "py '') Dan''"]
    extract_correct_letter_scan
      [of "PInt 2" "py ''x - y''" "py ''the ''" "of_char CHR ''c''" "py ''.''"]
  by (simp add: abcd_def py_def upper_ch_def)

section \<open>The loose reader rewrites text wherever its patterns match\<close>

text \<open>
  A substitution is the identity where its pattern does not match, makes the
  text shorter where it does, and never adds a character. Reading the file leaves
  no carriage return in the text.
\<close>

lemma strip_line_comments_id:
  "\<not> line_comment_in bol s \<Longrightarrow> strip_line_comments bol s = s"
  by (induction bol s rule: strip_line_comments.induct) auto

lemma strip_block_comments_id:
  "\<not> block_comment_in s \<Longrightarrow> strip_block_comments s = s"
  by (induction s rule: strip_block_comments.induct) (auto split: option.splits)

lemma strip_trailing_commas_id:
  "\<not> trailing_comma_in s \<Longrightarrow> strip_trailing_commas s = s"
  by (induction s rule: strip_trailing_commas.induct)
    (auto split: list.splits simp del: dropWhile_eq_Nil_conv)

lemma to_eol_length: "length (to_eol s) \<le> length s"
  by (simp add: to_eol_def length_dropWhile_le)

lemma strip_line_comments_length:
  "length (strip_line_comments bol s) \<le> length s"
proof (induction bol s rule: strip_line_comments.induct)
  case (1 bol)
  show ?case by simp
next
  case (2 bol c rest)
  have a: "length (to_eol (drop 1 rest)) \<le> length rest"
    using to_eol_length [of "drop 1 rest"] by simp
  have b: "length (to_eol (drop 2 rest)) \<le> length rest"
    using to_eol_length [of "drop 2 rest"] by simp
  from 2 a b show ?case by auto
qed

lemma strip_line_comments_shorter:
  "line_comment_in bol s \<Longrightarrow> length (strip_line_comments bol s) < length s"
proof (induction bol s rule: strip_line_comments.induct)
  case (1 bol)
  then show ?case by simp
next
  case (2 bol c rest)
  have a: "length (strip_line_comments False (to_eol (drop 1 rest))) \<le> length rest"
    using strip_line_comments_length [of False "to_eol (drop 1 rest)"]
      to_eol_length [of "drop 1 rest"] by simp
  have b: "startswith rest (py ''//'') \<Longrightarrow>
      length (strip_line_comments False (to_eol (drop 2 rest))) < length rest"
    using strip_line_comments_length [of False "to_eol (drop 2 rest)"]
      to_eol_length [of "drop 2 rest"]
    by (cases rest) (auto simp: startswith_def py_def)
  from 2 a b show ?case by auto
qed

lemma strip_block_comments_length: "length (strip_block_comments s) \<le> length s"
proof (induction s rule: strip_block_comments.induct)
  case 1
  show ?case by simp
next
  case (2 c rest)
  then show ?case by (auto split: option.splits)
qed

lemma strip_block_comments_shorter:
  "block_comment_in s \<Longrightarrow> length (strip_block_comments s) < length s"
proof (induction s rule: strip_block_comments.induct)
  case 1
  then show ?case by simp
next
  case (2 c rest)
  have "length (strip_block_comments (drop n (drop 1 rest))) \<le> length rest" for n
    using strip_block_comments_length [of "drop n (drop 1 rest)"] by simp
  with 2 show ?case by (auto split: option.splits simp: le_imp_less_Suc)
qed

lemma strip_trailing_commas_length: "length (strip_trailing_commas s) \<le> length s"
proof (induction s rule: strip_trailing_commas.induct)
  case 1
  show ?case by simp
next
  case (2 c rest)
  have "dropWhile isspace rest = b # after \<Longrightarrow> length after < length rest" for b after
    using length_dropWhile_le [of isspace rest] by simp
  with 2 show ?case
    by (auto split: list.splits simp del: dropWhile_eq_Nil_conv)
qed

lemma strip_trailing_commas_shorter:
  "trailing_comma_in s \<Longrightarrow> length (strip_trailing_commas s) < length s"
proof (induction s rule: strip_trailing_commas.induct)
  case 1
  then show ?case by simp
next
  case (2 c rest)
  have "dropWhile isspace rest = b # after \<Longrightarrow> length (strip_trailing_commas after) < length rest"
    for b after
    using length_dropWhile_le [of isspace rest] strip_trailing_commas_length [of after] by simp
  with 2 show ?case
    by (auto split: list.splits simp del: dropWhile_eq_Nil_conv)
qed


lemma strip_bom_id: "\<not> startswith s [65279] \<Longrightarrow> strip_bom s = s"
  by (cases s) (auto simp: strip_bom_def startswith_def)

lemma strip_bom_shorter: "startswith s [65279] \<Longrightarrow> length (strip_bom s) < length s"
  by (cases s) (auto simp: strip_bom_def startswith_def)

lemma universal_newlines_length: "length (universal_newlines s) \<le> length s"
  by (induction s rule: universal_newlines.induct) auto

lemma universal_newlines_no_cr: "13 \<notin> set (universal_newlines s)"
  by (induction s rule: universal_newlines.induct) auto

lemma universal_newlines_id: "13 \<notin> set s \<Longrightarrow> universal_newlines s = s"
  by (induction s rule: universal_newlines.induct) auto

lemma to_eol_subset: "set (to_eol s) \<subseteq> set s"
  by (auto simp: to_eol_def dest: set_dropWhileD)

lemma strip_line_comments_subset: "set (strip_line_comments bol s) \<subseteq> set s"
proof (induction bol s rule: strip_line_comments.induct)
  case (1 bol)
  show ?case by simp
next
  case (2 bol c rest)
  have a: "set (to_eol (drop 1 rest)) \<subseteq> set rest"
    using to_eol_subset [of "drop 1 rest"] set_drop_subset [of 1 rest] by blast
  have b: "set (to_eol (drop 2 rest)) \<subseteq> set rest"
    using to_eol_subset [of "drop 2 rest"] set_drop_subset [of 2 rest] by blast
  from 2 a b show ?case by (auto split: if_splits) blast+
qed

lemma strip_block_comments_subset: "set (strip_block_comments s) \<subseteq> set s"
proof (induction s rule: strip_block_comments.induct)
  case 1
  show ?case by simp
next
  case (2 c rest)
  have "set (drop n (drop 1 rest)) \<subseteq> set rest" for n
    using set_drop_subset [of n "drop 1 rest"] set_drop_subset [of 1 rest] by blast
  with 2 show ?case by (auto split: option.splits if_splits) blast+
qed

lemma strip_trailing_commas_subset: "set (strip_trailing_commas s) \<subseteq> set s"
proof (induction s rule: strip_trailing_commas.induct)
  case 1
  show ?case by simp
next
  case (2 c rest)
  have "dropWhile isspace rest = b # after \<Longrightarrow> set (b # after) \<subseteq> set rest" for b after
    using set_dropWhileD [of _ isspace rest] by (metis subsetI)
  with 2 show ?case
    by (auto split: list.splits if_splits simp del: dropWhile_eq_Nil_conv) blast+
qed

lemma substitutions_length: "length (substitutions t) \<le> length t"
  using strip_trailing_commas_length [of "strip_block_comments (strip_line_comments True t)"]
    strip_block_comments_length [of "strip_line_comments True t"]
    strip_line_comments_length [of True t]
  by (simp add: substitutions_def)

lemma substitutions_subset: "set (substitutions t) \<subseteq> set t"
  using strip_trailing_commas_subset [of "strip_block_comments (strip_line_comments True t)"]
    strip_block_comments_subset [of "strip_line_comments True t"]
    strip_line_comments_subset [of True t]
  unfolding substitutions_def by blast

lemma substitutions_id:
  "substitutions t = t \<longleftrightarrow>
     \<not> line_comment_in True t \<and> \<not> block_comment_in t \<and> \<not> trailing_comma_in t"
proof (intro iffI conjI)
  assume same: "substitutions t = t"
  show line: "\<not> line_comment_in True t"
  proof
    assume "line_comment_in True t"
    then have "length (strip_line_comments True t) < length t"
      by (rule strip_line_comments_shorter)
    with strip_trailing_commas_length [of "strip_block_comments (strip_line_comments True t)"]
      strip_block_comments_length [of "strip_line_comments True t"]
    have "length (substitutions t) < length t" by (simp add: substitutions_def)
    with same show False by simp
  qed
  then have l: "strip_line_comments True t = t" by (rule strip_line_comments_id)
  show block: "\<not> block_comment_in t"
  proof
    assume "block_comment_in t"
    then have "length (strip_block_comments t) < length t"
      by (rule strip_block_comments_shorter)
    with strip_trailing_commas_length [of "strip_block_comments t"] l
    have "length (substitutions t) < length t" by (simp add: substitutions_def)
    with same show False by simp
  qed
  then have k: "strip_block_comments t = t" by (rule strip_block_comments_id)
  show "\<not> trailing_comma_in t"
  proof
    assume "trailing_comma_in t"
    then have "length (strip_trailing_commas t) < length t"
      by (rule strip_trailing_commas_shorter)
    with l k have "length (substitutions t) < length t" by (simp add: substitutions_def)
    with same show False by simp
  qed
next
  assume "\<not> line_comment_in True t \<and> \<not> block_comment_in t \<and> \<not> trailing_comma_in t"
  then show "substitutions t = t"
    by (simp add: substitutions_def strip_line_comments_id strip_block_comments_id
        strip_trailing_commas_id)
qed

text \<open>
  Claim C4, as the code has it. The substitutions do not know where a JSON string
  begins or ends. The text handed to \<open>json.loads\<close> is the text read from the file
  exactly when none of the three patterns matches in the text read: no \<open>//\<close> at
  the start of a line or right after white space, \<open>[\<close>, \<open>{\<close> or a comma, no
  \<open>/*\<close> with a later \<open>*/\<close>, and no comma followed by optional white space and a
  closing bracket or brace. It is the content of the file itself exactly when, in
  addition, the content does not begin with U+FEFF and holds no carriage return,
  which reading removes or turns into a line feed. The loose reader then returns
  what \<open>json.loads\<close> returns on the content.
\<close>

theorem loose_text_unchanged:
  "(loose_text content = read_text content \<longleftrightarrow>
      \<not> line_comment_in True (read_text content) \<and> \<not> block_comment_in (read_text content) \<and>
      \<not> trailing_comma_in (read_text content)) \<and>
   (loose_text content = content \<longleftrightarrow>
      \<not> startswith content [65279] \<and> 13 \<notin> set content \<and>
      \<not> line_comment_in True content \<and> \<not> block_comment_in content \<and>
      \<not> trailing_comma_in content) \<and>
   (loose_text content = content \<longrightarrow>
      read_json_loose json_loads content = json_loads content)"
proof (intro conjI impI)
  show "loose_text content = read_text content \<longleftrightarrow>
      \<not> line_comment_in True (read_text content) \<and> \<not> block_comment_in (read_text content) \<and>
      \<not> trailing_comma_in (read_text content)"
    by (simp only: loose_text_def substitutions_id)
next
  show "loose_text content = content \<longleftrightarrow>
      \<not> startswith content [65279] \<and> 13 \<notin> set content \<and>
      \<not> line_comment_in True content \<and> \<not> block_comment_in content \<and>
      \<not> trailing_comma_in content"
  proof
    assume same: "loose_text content = content"
    have len: "length (loose_text content) \<le> length (strip_bom content)"
      using substitutions_length [of "read_text content"]
        universal_newlines_length [of "strip_bom content"]
      by (simp add: loose_text_def read_text_def)
    have bom: "\<not> startswith content [65279]"
    proof
      assume "startswith content [65279]"
      then have "length (strip_bom content) < length content" by (rule strip_bom_shorter)
      with len same show False by simp
    qed
    have "13 \<notin> set (loose_text content)"
      using substitutions_subset [of "read_text content"]
        universal_newlines_no_cr [of "strip_bom content"]
      by (auto simp: loose_text_def read_text_def)
    with same have cr: "13 \<notin> set content" by simp
    with bom have "read_text content = content"
      by (simp add: read_text_def strip_bom_id universal_newlines_id)
    with same have "substitutions content = content"
      by (simp add: loose_text_def)
    with bom cr show "\<not> startswith content [65279] \<and> 13 \<notin> set content \<and>
      \<not> line_comment_in True content \<and> \<not> block_comment_in content \<and>
      \<not> trailing_comma_in content"
      by (simp add: substitutions_id)
  next
    assume none: "\<not> startswith content [65279] \<and> 13 \<notin> set content \<and>
      \<not> line_comment_in True content \<and> \<not> block_comment_in content \<and>
      \<not> trailing_comma_in content"
    then have "read_text content = content"
      by (simp add: read_text_def strip_bom_id universal_newlines_id)
    moreover from none have "substitutions content = content"
      by (simp add: substitutions_id)
    ultimately show "loose_text content = content"
      by (simp add: loose_text_def)
  qed
next
  assume "loose_text content = content"
  then show "read_json_loose json_loads content = json_loads content"
    by (simp add: read_json_loose_def)
qed

text \<open>
  A string value with \<open>//\<close> after a colon and an unclosed \<open>/*\<close> passes through; a
  file with a mark and a line ending of carriage return and line feed comes out
  without the mark and with a line feed. The parser is instantiated with
  \<open>length\<close> to have a closed statement.
\<close>

theorem loose_text_unchanged_witness:
  \<open>loose_text (py ''{"u": "http://x/*y", "v": [1, 2]}'') =
     py ''{"u": "http://x/*y", "v": [1, 2]}'' \<and>
   read_json_loose length (py ''{"u": "http://x/*y", "v": [1, 2]}'') = 33 \<and>
   loose_text ([65279] @ py ''[1,'' @ [13, 10] @ py ''2]'') = py ''[1,'' @ [10] @ py ''2]''\<close>
  using loose_text_unchanged [of \<open>py ''{"u": "http://x/*y", "v": [1, 2]}''\<close> length]
    loose_text_unchanged [of \<open>[65279] @ py ''[1,'' @ [13, 10] @ py ''2]''\<close> length]
  by (simp add: py_def startswith_def comment_lead_def isspace_def read_text_def strip_bom_def loose_text_def)

text \<open>
  Three valid JSON documents whose only string value holds a pattern. The first
  loses the rest of its line, closing quote and bracket included; the second and
  the third stay valid JSON and come out with a different string.
\<close>

theorem loose_text_alters_strings:
  \<open>loose_text (py ''["a //b"]'') = py ''["a '' \<and>
   loose_text (py ''["a /* b */ c"]'') = py ''["a  c"]'' \<and>
   loose_text (py ''["a,]"]'') = py ''["a]"]''\<close>
  by (simp add: py_def read_text_def strip_bom_def startswith_def comment_lead_def isspace_def
      to_eol_def loose_text_def substitutions_def)

section \<open>Evaluation on concrete inputs\<close>

text \<open>The defining equations that the worked examples below unfold.\<close>

lemmas text_defs = py_def strip_def isspace_def upper_def upper_ch_def startswith_def
  LETTER_CHOICES_def py_str_def

lemmas load_defs = load_from_data_def parse_questions_list_def parse_item_def
  display_options_def label_option_def extract_correct_letter_def dict_get_def dict_has_def
  commit_parsed_def load_question_def config_flag_def enumerate_eq_zip

lemmas score_defs = submit_quiz_def submit_row_def submit_quiz_v1_def score_row_v1_def
  record_answer_def record_choice_def ljust_def heavy_check_def heavy_cross_def
  check_mark_def cross_mark_def

lemma str_nat_digit: "n < 10 \<Longrightarrow> str_nat n = [48 + n]"
  by (simp add: str_nat.simps)

lemma replicate_pad:
  "replicate 4 x = [x, x, x, x]" "replicate 6 x = [x, x, x, x, x, x]"
  by (simp_all add: numeral_eq_Suc)

text \<open>
  The specification's loading scenario: both sample documents load to the two
  records with the letters B and C, the second with its four options labelled.
\<close>

lemma scenario_loads:
  "load_from_data r scenario_document init_app =
     (Inr (), init_app\<lparr> questions := scenario_questions \<rparr>)"
  by (simp add: scenario_document_def scenario_entries_def scenario_questions_def init_app_def
      load_defs text_defs)

lemma scenario_wrapped_loads:
  "load_from_data r scenario_wrapped init_app =
     (Inr (), init_app\<lparr> questions := scenario_questions,
                         metadata := [(py ''title'', PStr (py ''Sample''))] \<rparr>)"
  by (simp add: scenario_wrapped_def scenario_entries_def scenario_questions_def init_app_def
      load_defs text_defs)

section \<open>The loader keeps the valid entries, in order\<close>

lemma parse_item_valid: "parse_item r item \<noteq> None \<longleftrightarrow> valid_entry item"
  by (cases item) (auto simp: parse_item_def valid_entry_def dict_has_def split: option.splits)

lemma parse_loop_eq:
  "parse_loop r parsed items =
     parsed @ map (\<lambda>item. the (parse_item r item)) (filter valid_entry items)"
proof (induction items arbitrary: parsed)
  case Nil
  show ?case by simp
next
  case (Cons item items)
  show ?case
  proof (cases "parse_item r item")
    case None
    then have "\<not> valid_entry item"
      using parse_item_valid [of r item] by simp
    with None Cons show ?thesis by simp
  next
    case (Some q)
    then have "valid_entry item"
      using parse_item_valid [of r item] by simp
    with Some Cons show ?thesis by simp
  qed
qed

lemma parse_questions_list_eq:
  "parse_questions_list r items =
     map (\<lambda>item. the (parse_item r item)) (filter valid_entry items)"
  by (simp add: parse_questions_list_def parse_loop_eq)

lemma commit_parsed_fst:
  "fst (commit_parsed parsed sl ss self) = (if parsed = [] then Inl NoValidQuestions else Inr ())"
  by (simp add: commit_parsed_def)

lemma commit_parsed_questions:
  "parsed \<noteq> [] \<Longrightarrow> questions (snd (commit_parsed parsed sl ss self)) = parsed"
  by (simp add: commit_parsed_def load_question_def)

lemma load_fst:
  "document_entries data = Some items \<Longrightarrow>
   fst (load_from_data r data self) =
     (if parse_questions_list r items = [] then Inl NoValidQuestions else Inr ())"
  by (auto simp: load_from_data_def document_entries_def Let_def commit_parsed_fst
      split: pyval.splits option.splits)

lemma load_fst_none:
  "document_entries data = None \<Longrightarrow>
   fst (load_from_data r data self) \<in> {Inl NoQuestionsArray, Inl UnsupportedStructure}"
  by (auto simp: load_from_data_def document_entries_def Let_def
      split: pyval.splits option.splits)

lemma load_questions:
  "document_entries data = Some items \<Longrightarrow> parse_questions_list r items \<noteq> [] \<Longrightarrow>
   questions (snd (load_from_data r data self)) = parse_questions_list r items"
  by (auto simp: load_from_data_def document_entries_def Let_def commit_parsed_questions
      split: pyval.splits option.splits)

text \<open>
  Claim C5. A document that is neither a sequence nor a mapping with a
  \<open>questions\<close> sequence fails to load. A document whose entries include no valid
  one (a mapping with both a \<open>question\<close> and an \<open>answer\<close> key) fails with the "no
  valid questions" error. A document with at least one valid entry loads, whatever
  the other entries are, and the loaded questions are the records built from the
  valid entries, in the order of the document.
\<close>

theorem load_keeps_valid_entries:
  "(document_entries data = None \<longrightarrow> (\<exists>e. fst (load_from_data r data self) = Inl e)) \<and>
   (document_entries data = Some items \<and> filter valid_entry items = [] \<longrightarrow>
      fst (load_from_data r data self) = Inl NoValidQuestions) \<and>
   (document_entries data = Some items \<and> filter valid_entry items \<noteq> [] \<longrightarrow>
      fst (load_from_data r data self) = Inr () \<and>
      questions (snd (load_from_data r data self)) =
        map (\<lambda>item. the (parse_item r item)) (filter valid_entry items))"
proof (intro conjI impI)
  assume "document_entries data = None"
  then show "\<exists>e. fst (load_from_data r data self) = Inl e"
    using load_fst_none [of data r self] by auto
next
  assume "document_entries data = Some items \<and> filter valid_entry items = []"
  then show "fst (load_from_data r data self) = Inl NoValidQuestions"
    by (simp add: load_fst parse_questions_list_eq)
next
  assume a: "document_entries data = Some items \<and> filter valid_entry items \<noteq> []"
  then show "fst (load_from_data r data self) = Inr ()"
    by (simp add: load_fst parse_questions_list_eq)
  from a have "parse_questions_list r items \<noteq> []"
    by (simp add: parse_questions_list_eq)
  with a show "questions (snd (load_from_data r data self)) =
        map (\<lambda>item. the (parse_item r item)) (filter valid_entry items)"
    by (simp add: load_questions parse_questions_list_eq)
qed

theorem load_keeps_valid_entries_witness:
  "fst (load_from_data (\<lambda>v. []) (PStr (py ''quiz'')) init_app) = Inl UnsupportedStructure \<and>
   fst (load_from_data (\<lambda>v. [])
          (PList [PDict [(py ''question'', PStr (py ''Q0''))], PInt 7]) init_app) =
     Inl NoValidQuestions \<and>
   fst (load_from_data (\<lambda>v. [])
          (PList (PDict [(py ''answer'', PStr (py ''A''))] # scenario_entries)) init_app) =
     Inr () \<and>
   questions (snd (load_from_data (\<lambda>v. [])
          (PList (PDict [(py ''answer'', PStr (py ''A''))] # scenario_entries)) init_app)) =
     scenario_questions"
  using load_keeps_valid_entries [where data = "PStr (py ''quiz'')" and items = "[]"
      and r = "\<lambda>v. []" and self = init_app]
    load_keeps_valid_entries [where
      data = "PList [PDict [(py ''question'', PStr (py ''Q0''))], PInt 7]"
      and items = "[PDict [(py ''question'', PStr (py ''Q0''))], PInt 7]"
      and r = "\<lambda>v. []" and self = init_app]
    load_keeps_valid_entries [where
      data = "PList (PDict [(py ''answer'', PStr (py ''A''))] # scenario_entries)"
      and items = "PDict [(py ''answer'', PStr (py ''A''))] # scenario_entries"
      and r = "\<lambda>v. []" and self = init_app]
  by (simp add: document_entries_def valid_entry_def scenario_entries_def scenario_questions_def
      load_defs text_defs)

section \<open>Entries that are not mappings are skipped\<close>

lemma valid_entry_is_dict: "valid_entry item \<Longrightarrow> is_dict item"
  by (cases item) (simp_all add: valid_entry_def is_dict_def)

lemma filter_valid_dicts: "filter valid_entry (filter is_dict items) = filter valid_entry items"
  by (induction items) (auto dest: valid_entry_is_dict)

text \<open>
  Claim C10. An element of the question list that is not a mapping produces no
  record: the parser returns the same list with or without it, and the same list
  as on the mappings alone. It does not make the load fail either: a list with at
  least one valid entry loads.
\<close>

theorem non_mappings_skipped:
  "(\<not> is_dict x \<longrightarrow>
      parse_item r x = None \<and>
      parse_questions_list r (pre @ x # post) = parse_questions_list r (pre @ post)) \<and>
   parse_questions_list r items = parse_questions_list r (filter is_dict items) \<and>
   ((\<exists>item \<in> set items. valid_entry item) \<longrightarrow>
      fst (load_from_data r (PList items) self) = Inr ())"
proof (intro conjI impI)
  assume x: "\<not> is_dict x"
  then have nv: "\<not> valid_entry x" by (auto dest: valid_entry_is_dict)
  then show "parse_item r x = None"
    using parse_item_valid [of r x] by simp
  from nv show "parse_questions_list r (pre @ x # post) = parse_questions_list r (pre @ post)"
    by (simp add: parse_questions_list_eq)
next
  show "parse_questions_list r items = parse_questions_list r (filter is_dict items)"
    by (simp only: parse_questions_list_eq filter_valid_dicts)
next
  assume "\<exists>item \<in> set items. valid_entry item"
  then have "filter valid_entry items \<noteq> []"
    by (simp add: filter_empty_conv)
  then show "fst (load_from_data r (PList items) self) = Inr ()"
    by (simp add: load_fst [of "PList items" items] document_entries_def parse_questions_list_eq)
qed

theorem non_mappings_skipped_witness:
  "parse_questions_list (\<lambda>v. []) (PStr (py ''Q'') # PInt 3 # scenario_entries @ [PNone]) =
     scenario_questions \<and>
   fst (load_from_data (\<lambda>v. []) (PList (PStr (py ''Q'') # PInt 3 # scenario_entries @ [PNone]))
          init_app) = Inr ()"
  using non_mappings_skipped [where x = "PInt 3" and r = "\<lambda>v. []" and pre = "[PStr (py ''Q'')]"
      and post = "scenario_entries @ [PNone]"
      and items = "PStr (py ''Q'') # PInt 3 # scenario_entries @ [PNone]" and self = init_app]
  by (simp add: is_dict_def valid_entry_def scenario_entries_def scenario_questions_def
      load_defs text_defs)

section \<open>Option labels\<close>

lemma upper_append: "upper (a @ b) = upper a @ upper b"
  by (simp add: upper_def)

lemma label_cases: "i < 4 \<Longrightarrow> i = 0 \<or> i = 1 \<or> i = 2 \<or> i = (3::nat)"
  by arith
lemma label_option_labelled:
  "i < 4 \<Longrightarrow> startswith (upper (label_option r i opt)) (LETTER_CHOICES ! i @ py '')'')"
  by (auto dest!: label_cases
      simp: label_option_def Let_def startswith_def upper_def upper_ch_def LETTER_CHOICES_def
        py_def)

lemma strip_no_lead: "dropWhile isspace (strip s) = strip s"
proof (cases "strip s = []")
  case True
  then show ?thesis by simp
next
  case False
  let ?u = "dropWhile isspace s"
  let ?v = "dropWhile isspace (rev ?u)"
  from False have v: "?v \<noteq> []" by (simp add: strip_def)
  then have "rev ?u \<noteq> []" by (metis dropWhile.simps(1))
  then have u: "?u \<noteq> []" by simp
  have "rev ?u = takeWhile isspace (rev ?u) @ ?v" by simp
  with v have "last (rev ?u) = last ?v" by (metis last_appendR)
  with u have "last ?v = hd ?u" by (simp add: last_rev)
  moreover from u have "\<not> isspace (hd ?u)" by (rule hd_dropWhile)
  ultimately have "\<not> isspace (hd (rev ?v))" using v by (simp add: hd_rev)
  then show ?thesis by (simp add: strip_def dropWhile_eq_self_iff)
qed

lemma strip_idem: "strip (strip s) = strip s"
proof -
  have "rev (dropWhile isspace (rev (strip s))) = strip s"
    by (simp add: strip_def)
  then show ?thesis
    unfolding strip_def [of "strip s"] strip_no_lead by simp
qed

lemma label_option_again:
  assumes "startswith (upper (strip (py_str r opt))) (LETTER_CHOICES ! i @ py '')'')"
  shows "label_option r i opt = strip (py_str r opt)"
    and "label_option r i (PStr (label_option r i opt)) = label_option r i opt"
proof -
  from assms show a: "label_option r i opt = strip (py_str r opt)"
    by (simp add: label_option_def)
  from assms show "label_option r i (PStr (label_option r i opt)) = label_option r i opt"
    unfolding a by (simp add: label_option_def py_str_def strip_idem)
qed

lemma display_options_nth:
  assumes "dict_get d (py ''options'') = Some (PList opts)" and "length opts \<ge> 4"
  shows "\<exists>os. display_options r d = Some os \<and> length os = 4 \<and>
           (\<forall>i<4. os ! i = label_option r i (opts ! i))"
  using assms by (simp add: display_options_def nth_enumerate_eq)

text \<open>
  Claim C7, as the code has it. For an entry with a \<open>question\<close>, an \<open>answer\<close>
  and an \<open>options\<close> sequence of at least 4 items, the built record has exactly 4
  options, and option \<open>i\<close> begins with its letter and \<open>)\<close> once uppercased: the
  letter itself may be in lower case, since the test is made on the uppercased
  text and the text is kept as it was. Where the trimmed option already begins
  with the label in either case, the record holds the trimmed option with no
  second label, and labelling that result again returns it unchanged. Otherwise
  the record holds the upper-case letter, \<open>)\<close>, a space and the trimmed option.
\<close>

theorem options_labelled:
  assumes "valid_entry (PDict d)"
    and "dict_get d (py ''options'') = Some (PList opts)"
    and "length opts \<ge> 4"
    and "i < 4"
  shows "\<exists>q os. parse_item r (PDict d) = Some q \<and> options q = Some os \<and> length os = 4 \<and>
     startswith (upper (os ! i)) (LETTER_CHOICES ! i @ py '')'') \<and>
     (if startswith (upper (strip (py_str r (opts ! i)))) (LETTER_CHOICES ! i @ py '')'')
      then os ! i = strip (py_str r (opts ! i)) \<and> label_option r i (PStr (os ! i)) = os ! i
      else os ! i = LETTER_CHOICES ! i @ py '') '' @ strip (py_str r (opts ! i)))"
proof -
  from assms(1) obtain q where q: "parse_item r (PDict d) = Some q"
    using parse_item_valid [of r "PDict d"] by auto
  then have oq: "options q = display_options r d"
    by (auto simp: parse_item_def split: option.splits)
  from display_options_nth [OF assms(2,3)] obtain os where
    os: "display_options r d = Some os" "length os = 4"
      "\<forall>i<4. os ! i = label_option r i (opts ! i)"
    by blast
  from assms(4) os(3) have e: "os ! i = label_option r i (opts ! i)" by simp
  have each: "startswith (upper (os ! i)) (LETTER_CHOICES ! i @ py '')'') \<and>
        (if startswith (upper (strip (py_str r (opts ! i)))) (LETTER_CHOICES ! i @ py '')'')
         then os ! i = strip (py_str r (opts ! i)) \<and> label_option r i (PStr (os ! i)) = os ! i
         else os ! i = LETTER_CHOICES ! i @ py '') '' @ strip (py_str r (opts ! i)))"
    unfolding e using label_option_labelled [OF assms(4), of r "opts ! i"]
      label_option_again [of r "opts ! i" i]
    by (simp add: label_option_def)
  show ?thesis
  proof (intro exI conjI)
    show "parse_item r (PDict d) = Some q" by (rule q)
    show "options q = Some os" using oq os(1) by simp
    show "length os = 4" by (rule os(2))
  qed (use each in blast)+
qed

theorem options_labelled_witness:
  "\<exists>q os. parse_item (\<lambda>v. []) (PDict [(py ''question'', PStr (py ''Q2'')), (py ''answer'', PStr (py ''C'')),
        (py ''options'', PList [PStr (py '' a) x''), PStr (py ''b''), PStr (py ''c''), PStr (py ''d''), PInt 5])]) = Some q \<and>
     options q = Some os \<and> length os = 4 \<and>
     startswith (upper (os ! 0)) (py ''A)'') \<and>
     os ! 0 = py ''a) x'' \<and> label_option (\<lambda>v. []) 0 (PStr (os ! 0)) = os ! 0"
  using options_labelled [of "[(py ''question'', PStr (py ''Q2'')), (py ''answer'', PStr (py ''C'')),
        (py ''options'', PList [PStr (py '' a) x''), PStr (py ''b''), PStr (py ''c''), PStr (py ''d''), PInt 5])]"
        "[PStr (py '' a) x''), PStr (py ''b''), PStr (py ''c''), PStr (py ''d''), PInt 5]" 0 "\<lambda>v. []"]
  by (simp add: valid_entry_def dict_has_def dict_get_def py_str_def strip_def isspace_def
      startswith_def upper_def upper_ch_def LETTER_CHOICES_def py_def)

text \<open>
  An option already labelled with a lower-case letter is kept as it is, so the
  first option of the built record begins with \<open>a)\<close> and not with \<open>A)\<close>.
\<close>

theorem options_lower_case_label:
  "map_option options (parse_item (\<lambda>v. []) (PDict [(py ''question'', PStr (py ''Q2'')), (py ''answer'', PStr (py ''C'')),
        (py ''options'', PList [PStr (py ''a) x''), PStr (py ''b''), PStr (py ''c''), PStr (py ''d'')])]))
     = Some (Some [py ''a) x'', py ''B) b'', py ''C) c'', py ''D) d'']) \<and>
   \<not> startswith (py ''a) x'') (py ''A)'')"
  by (simp add: parse_item_def dict_get_def display_options_def label_option_def py_str_def strip_def isspace_def
     startswith_def upper_def upper_ch_def LETTER_CHOICES_def enumerate_eq_zip py_def)

section \<open>Unanswered questions and progress\<close>

lemma counted_iff: "counted ua i \<longleftrightarrow> (\<exists>a. ua i = Some a \<and> a \<noteq> [])"
  by (simp add: counted_def split: option.splits)

lemma unanswered_iff: "unanswered ua i \<longleftrightarrow> ua i = None \<or> ua i = Some []"
  by (simp add: unanswered_def split: option.splits)

lemma unanswered_not_counted: "unanswered ua i \<longleftrightarrow> \<not> counted ua i"
  by (simp add: unanswered_def counted_def split: option.splits)

lemma first_unanswered_None:
  "first_unanswered ua is = None \<longleftrightarrow> (\<forall>i \<in> set is. counted ua i)"
  by (induction "is") (simp_all add: unanswered_not_counted)

lemma first_unanswered_Some:
  "first_unanswered ua is = Some k \<Longrightarrow>
   \<exists>pre post. is = pre @ k # post \<and> (\<forall>j \<in> set pre. counted ua j) \<and> unanswered ua k"
proof (induction "is")
  case Nil
  then show ?case by simp
next
  case (Cons i rest)
  show ?case
  proof (cases "unanswered ua i")
    case True
    with Cons.prems have "i = k" by simp
    with True have "i # rest = [] @ k # rest \<and> (\<forall>j \<in> set []. counted ua j) \<and> unanswered ua k"
      by simp
    then show ?thesis by blast
  next
    case False
    with Cons obtain pre post where
      "rest = pre @ k # post" "\<forall>j \<in> set pre. counted ua j" "unanswered ua k"
      by auto
    with False have "i # rest = (i # pre) @ k # post \<and> (\<forall>j \<in> set (i # pre). counted ua j)
        \<and> unanswered ua k"
      by (simp add: unanswered_not_counted)
    then show ?thesis by blast
  qed
qed

lemma range_split:
  assumes "map int [0 ..< n] = pre @ k # post"
  shows "k = int (length pre) \<and> length pre < n \<and> set pre = int ` {0 ..< length pre}"
proof -
  let ?m = "length pre"
  from assms have len: "n = ?m + Suc (length post)"
    by (metis length_map length_upt length_append length_Cons diff_zero)
  then have m: "?m < n" by simp
  from assms have "(map int [0 ..< n]) ! ?m = k" by simp
  with m have k: "k = int ?m" by simp
  from assms have "pre = take ?m (map int [0 ..< n])" by simp
  also have "\<dots> = map int [0 ..< ?m]" using m by (simp add: take_map take_upt)
  finally have "set pre = int ` {0 ..< ?m}" by (metis set_map set_upt)
  with k m show ?thesis by simp
qed

lemma jump_unanswered_None:
  "fst (jump_unanswered self) = None \<longleftrightarrow>
     (\<forall>i < length (questions self). counted (user_answers self) (int i))"
proof -
  have "fst (jump_unanswered self) = None \<longleftrightarrow>
      first_unanswered (user_answers self) (range_len self) = None"
    by (simp add: jump_unanswered_def split: option.splits)
  then show ?thesis
    by (auto simp: first_unanswered_None range_len_def)
qed

lemma jump_unanswered_Some:
  assumes "fst (jump_unanswered self) = Some k"
  shows "0 \<le> k \<and> k < int (length (questions self)) \<and> unanswered (user_answers self) k \<and>
         (\<forall>j. 0 \<le> j \<and> j < k \<longrightarrow> counted (user_answers self) j) \<and>
         current_index (snd (jump_unanswered self)) = k"
proof -
  let ?n = "length (questions self)"
  from assms have f: "first_unanswered (user_answers self) (range_len self) = Some k"
    by (simp add: jump_unanswered_def split: option.splits)
  from first_unanswered_Some [OF f] obtain pre post where
    d: "map int [0 ..< ?n] = pre @ k # post"
      "\<forall>j \<in> set pre. counted (user_answers self) j" "unanswered (user_answers self) k"
    unfolding range_len_def by blast
  from range_split [OF d(1)] have
    r: "k = int (length pre)" "length pre < ?n" "set pre = int ` {0 ..< length pre}"
    by simp_all
  have low: "counted (user_answers self) j" if "0 \<le> j \<and> j < k" for j
  proof -
    from that r(1) have "nat j < length pre" "j = int (nat j)" by (simp_all add: nat_less_iff)
    then have "j \<in> set pre" unfolding r(3) by (metis atLeastLessThan_iff image_eqI le0)
    with d(2) show ?thesis by simp
  qed
  from r have range: "0 \<le> k \<and> k < int ?n" by simp
  with f have "current_index (snd (jump_unanswered self)) = k"
    by (simp add: jump_unanswered_def load_question_def)
  with range d(3) low show ?thesis by blast
qed

lemma progress_after_clear:
  "progress_answered (record_answer [] (record_answer b self)) =
     length (filter (\<lambda>i. i \<noteq> current_index self \<and> counted (user_answers self) i)
       (range_len self))"
proof -
  have "counted (user_answers (record_answer [] (record_answer b self))) i \<longleftrightarrow>
      i \<noteq> current_index self \<and> counted (user_answers self) i" for i
    by (simp add: record_answer_def record_choice_def counted_def)
  moreover have "range_len (record_answer [] (record_answer b self)) = range_len self"
    by (simp add: record_answer_def record_choice_def range_len_def)
  ultimately show ?thesis
    by (simp add: progress_answered_def)
qed

text \<open>
  Claim C8. After recording B and then the empty text for the current question,
  the answered count of \<open>progress_text\<close> is the number of other questions with a
  non-empty recorded answer, so the current one is not counted.
  \<open>jump_unanswered\<close> finds no question exactly when every question has a recorded
  answer that is not empty; when it finds question \<open>k\<close>, that question has no
  answer or an empty one, every question before it has a non-empty answer, and
  \<open>k\<close> becomes the current index.
\<close>

theorem empty_answer_is_unanswered:
  "progress_answered (record_answer [] (record_answer (py ''B'') self)) =
     length (filter (\<lambda>i. i \<noteq> current_index self \<and> counted (user_answers self) i)
       (range_len self)) \<and>
   (fst (jump_unanswered self) = None \<longleftrightarrow>
     (\<forall>i < length (questions self). \<exists>a. user_answers self (int i) = Some a \<and> a \<noteq> [])) \<and>
   (fst (jump_unanswered self) = Some k \<longrightarrow>
     0 \<le> k \<and> k < int (length (questions self)) \<and>
     (user_answers self k = None \<or> user_answers self k = Some []) \<and>
     (\<forall>j. 0 \<le> j \<and> j < k \<longrightarrow> (\<exists>a. user_answers self j = Some a \<and> a \<noteq> [])) \<and>
     current_index (snd (jump_unanswered self)) = k)"
  using progress_after_clear [of "py ''B''" self] jump_unanswered_None [of self]
    jump_unanswered_Some [of self k]
  unfolding counted_iff unanswered_iff by blast

theorem empty_answer_is_unanswered_witness:
  "progress_answered (record_answer [] (record_answer (py ''B'')
      (init_app\<lparr> questions := scenario_questions \<rparr>))) = 0 \<and>
   progress_answered (record_answer (py ''B'')
      (init_app\<lparr> questions := scenario_questions \<rparr>)) = 1 \<and>
   fst (jump_unanswered (record_answer [] (record_answer (py ''B'')
      (init_app\<lparr> questions := scenario_questions \<rparr>)))) = Some 0 \<and>
   fst (jump_unanswered (record_answer (py ''B'')
      (init_app\<lparr> questions := scenario_questions \<rparr>))) = Some 1 \<and>
   fst (jump_unanswered
      (init_app\<lparr> questions := scenario_questions,
                 user_answers := [0 \<mapsto> py ''B'', 1 \<mapsto> py ''C''] \<rparr>)) = None"
  using empty_answer_is_unanswered [where
      self = "init_app\<lparr> questions := scenario_questions \<rparr>" and k = 0]
    empty_answer_is_unanswered [where
      self = "record_answer (py ''B'') (init_app\<lparr> questions := scenario_questions \<rparr>)"
      and k = 1]
    empty_answer_is_unanswered [where
      self = "init_app\<lparr> questions := scenario_questions,
                 user_answers := [0 \<mapsto> py ''B'', 1 \<mapsto> py ''C''] \<rparr>" and k = 0]
  by (simp add: init_app_def scenario_questions_def record_answer_def record_choice_def
      progress_answered_def range_len_def counted_def jump_unanswered_def unanswered_def
      load_question_def upt_rec py_def)

section \<open>Navigation stays inside the quiz\<close>

text \<open>
  Claim C9. With the current index inside the quiz, \<open>next_question\<close> and
  \<open>prev_question\<close> leave it inside the quiz. \<open>next_question\<close> at the last
  question and \<open>prev_question\<close> at the first leave the whole state as it is, so
  repeating them changes nothing; anywhere else they move the index by one.
\<close>

theorem navigation_stays_in_range:
  assumes "0 \<le> current_index self"
    and "current_index self < int (length (questions self))"
  shows "0 \<le> current_index (next_question self) \<and>
         current_index (next_question self) < int (length (questions (next_question self))) \<and>
         0 \<le> current_index (prev_question self) \<and>
         current_index (prev_question self) < int (length (questions (prev_question self))) \<and>
         (current_index self = int (length (questions self)) - 1 \<longrightarrow> next_question self = self) \<and>
         (current_index self = 0 \<longrightarrow> prev_question self = self) \<and>
         (current_index self < int (length (questions self)) - 1 \<longrightarrow>
            current_index (next_question self) = current_index self + 1) \<and>
         (current_index self > 0 \<longrightarrow>
            current_index (prev_question self) = current_index self - 1)"
  using assms by (auto simp: next_question_def prev_question_def load_question_def)

theorem navigation_stays_in_range_witness:
  "current_index (next_question (init_app\<lparr> questions := scenario_questions \<rparr>)) = 1 \<and>
   prev_question (init_app\<lparr> questions := scenario_questions \<rparr>) =
     init_app\<lparr> questions := scenario_questions \<rparr> \<and>
   next_question (init_app\<lparr> questions := scenario_questions, current_index := 1 \<rparr>) =
     init_app\<lparr> questions := scenario_questions, current_index := 1 \<rparr> \<and>
   current_index (prev_question (init_app\<lparr> questions := scenario_questions, current_index := 1 \<rparr>)) = 0"
  using navigation_stays_in_range [of "init_app\<lparr> questions := scenario_questions \<rparr>"]
    navigation_stays_in_range [of "init_app\<lparr> questions := scenario_questions, current_index := 1 \<rparr>"]
  by (simp add: init_app_def scenario_questions_def)

section \<open>A failed load and the state\<close>

lemma commit_parsed_error:
  "fst (commit_parsed parsed sl ss self) = Inl e \<Longrightarrow> snd (commit_parsed parsed sl ss self) = self"
  by (simp add: commit_parsed_def split: if_splits)

lemma metadata_step:
  "(case v of Some (PDict md) \<Rightarrow> self\<lparr> metadata := [] \<rparr>\<lparr> metadata := md \<rparr>
            | _ \<Rightarrow> self\<lparr> metadata := [] \<rparr>)\<lparr> metadata := [] \<rparr> = self\<lparr> metadata := [] \<rparr>"
  by (simp split: option.splits pyval.splits)

lemma failed_load_keeps_session:
  assumes "fst (load_from_data r data self) = Inl e"
  shows "(snd (load_from_data r data self))\<lparr> metadata := [] \<rparr> = self\<lparr> metadata := [] \<rparr>"
proof (cases data)
  case (PList items)
  with assms show ?thesis
    by (auto simp: load_from_data_def dest: commit_parsed_error)
next
  case (PDict d)
  show ?thesis
  proof (cases "dict_get d (py ''questions'')")
    case None
    with PDict show ?thesis by (simp add: load_from_data_def)
  next
    case (Some v)
    show ?thesis
    proof (cases v)
      case (PList qs)
      from assms \<open>data = PDict d\<close> Some PList show ?thesis
        using metadata_step [of self "dict_get d (py ''metadata'')"]
        by (auto simp: load_from_data_def Let_def dest: commit_parsed_error)
    qed (use \<open>data = PDict d\<close> Some in \<open>simp_all add: load_from_data_def\<close>)
  qed
qed (simp_all add: load_from_data_def)

text \<open>
  Claim C2. A load that fails leaves the questions, the answers, the current
  index, the modes and the choice variable as they were (the lemma above), but not
  the metadata: \<open>_load_from_data\<close> clears it before it looks at the document.
  After the wrapped sample document has been loaded, loading the number 5 fails
  and leaves the metadata empty, and loading a mapping with no valid question
  fails and leaves the metadata of the rejected document in place.
\<close>

theorem failed_load_clears_metadata:
  "load_from_data r scenario_wrapped init_app =
     (Inr (), init_app\<lparr> questions := scenario_questions,
                         metadata := [(py ''title'', PStr (py ''Sample''))] \<rparr>) \<and>
   load_from_data r (PInt 5)
     (init_app\<lparr> questions := scenario_questions,
                metadata := [(py ''title'', PStr (py ''Sample''))] \<rparr>) =
     (Inl UnsupportedStructure, init_app\<lparr> questions := scenario_questions, metadata := [] \<rparr>) \<and>
   load_from_data r (PDict [(py ''metadata'', PDict [(py ''title'', PStr (py ''Other''))]),
                            (py ''questions'', PList [PInt 1])])
     (init_app\<lparr> questions := scenario_questions,
                metadata := [(py ''title'', PStr (py ''Sample''))] \<rparr>) =
     (Inl NoValidQuestions,
      init_app\<lparr> questions := scenario_questions,
                metadata := [(py ''title'', PStr (py ''Other''))] \<rparr>)"
  by (simp add: scenario_wrapped_def scenario_entries_def scenario_questions_def init_app_def
      load_defs text_defs)

section \<open>The results text\<close>

text \<open>
  The percentage of one correct answer out of two is printed as 50.0 in every
  revision. At 23 out of 80 the two ways of computing it round differently and
  the revisions print different texts.
\<close>

lemmas float_defs = format_1f_def tenths_def pct_main_def pct_v1_def fdiv_def fmul_def
  float_of_nat_def int_truediv_def round_quot_def rhe_div_def Let_def

lemma pct_half:
  "format_1f (pct_main 1 2) = py ''50.0''" "format_1f (pct_v1 1 2) = py ''50.0''"
  by (simp_all add: float_defs bit_length.simps str_nat.simps py_def)

lemma pct_half_Suc:
  "format_1f (pct_main (Suc 0) (Suc (Suc 0))) = py ''50.0''"
  "format_1f (pct_v1 (Suc 0) (Suc (Suc 0))) = py ''50.0''"
  using pct_half by (simp_all only: numeral_2_eq_2 One_nat_def)

lemma pct_revisions_differ:
  "format_1f (pct_main 23 80) = py ''28.8''" "format_1f (pct_v1 23 80) = py ''28.7''"
  by (simp_all add: float_defs bit_length.simps str_nat.simps py_def)

lemma format_1f_digit:
  "format_1f x = str_nat (tenths x div 10) @ py ''.'' @ [48 + tenths x mod 10]"
  by (simp add: format_1f_def str_nat_digit)

lemma submit_loop_eq:
  "submit_loop ua (c, ls) rows =
     (c + length (filter (\<lambda>(i, q). fst (submit_row ua i q)) rows),
      ls @ map (\<lambda>(i, q). snd (submit_row ua i q)) rows)"
  by (induction rows arbitrary: c ls) (auto simp: case_prod_beta)

lemma score_loop_v1_eq:
  "score_loop_v1 ua (c, ls) rows =
     (c + length (filter (\<lambda>(i, q). fst (score_row_v1 ua i q)) rows),
      ls @ map (\<lambda>(i, q). snd (score_row_v1 ua i q)) rows)"
  by (induction rows arbitrary: c ls) (auto simp: case_prod_beta)

text \<open>
  Claim C6, as the code has it. With at least one question loaded, the earlier
  revisions produce the score line \<open>Score: C/T  (P%)\<close>, an empty line, a line of
  column headings and then one row per question in quiz order; a row holds the
  position counted from 1, the user's letter or \<open>-\<close> when there is none or it is
  empty, the correct letter or \<open>?\<close> when it is empty, and a mark. \<open>quiz_app.py\<close>
  produces the line \<open>Results:\<close>, an empty line, one row per question in quiz order
  and the score line last, after an empty line; a row holds \<open>Q\<close> and the position
  counted from 1, a mark, the user's letter or \<open>(blank)\<close>, and the correct letter,
  which is left empty when undeterminable. \<open>P\<close> is the float that the revision
  computes, \<open>correct / total * 100.0\<close> in the earlier ones and
  \<open>100.0*correct/total\<close> in \<open>quiz_app.py\<close>, printed as its whole part, a point
  and one digit.
\<close>

theorem report_layout:
  assumes "questions self \<noteq> []"
  shows
    "(let ua = user_answers self; rows = enumerate 0 (questions self);
          n = length (questions self);
          c = length (filter (\<lambda>(i, q). fst (score_row_v1 ua i q)) rows)
      in submit_quiz_v1 self =
           Some (c, join [10]
             ([py ''Score: '' @ str_nat c @ py ''/'' @ str_nat n @
                 py ''  ('' @ format_1f (pct_v1 c n) @ py ''%)'',
               [],
               py ''#  Your  Correct  '' @ check_mark @ py ''/'' @ cross_mark] @
              map (\<lambda>(i, q). snd (score_row_v1 ua i q)) rows))) \<and>
     (let ua = user_answers self; rows = enumerate 0 (questions self);
          n = length (questions self);
          c = length (filter (\<lambda>(i, q). fst (submit_row ua i q)) rows)
      in submit_quiz self =
           Some (c, join [10]
             ([py ''Results:'' @ [10]] @
              map (\<lambda>(i, q). snd (submit_row ua i q)) rows @
              [[10] @ py ''Score: '' @ str_nat c @ py ''/'' @ str_nat n @
                 py ''  ('' @ format_1f (pct_main c n) @ py ''%)'' @ [10]]))) \<and>
     format_1f x = str_nat (tenths x div 10) @ py ''.'' @ [48 + tenths x mod 10] \<and>
     snd (score_row_v1 ua i q) =
       ljust 2 (str_nat (i + 1)) @ py '' '' @
       ljust 5 (case ua (int i) of None \<Rightarrow> py ''-''
                | Some a \<Rightarrow> if a = [] then py ''-'' else a) @ py '' '' @
       ljust 7 (if answer_letter q = [] then py ''?'' else answer_letter q) @ py '' '' @
       (if fst (score_row_v1 ua i q) then check_mark else cross_mark) \<and>
     snd (submit_row ua i q) =
       py ''Q'' @ str_nat (i + 1) @ py '': '' @
       (if fst (submit_row ua i q) then heavy_check else heavy_cross) @
       py ''  Your: '' @
       (case ua (int i) of None \<Rightarrow> py ''(blank)''
        | Some a \<Rightarrow> if a = [] then py ''(blank)'' else a) @
       py ''   Correct: '' @ answer_letter q"
proof (intro conjI)
  show "format_1f x = str_nat (tenths x div 10) @ py ''.'' @ [48 + tenths x mod 10]"
    by (rule format_1f_digit)
  show "snd (score_row_v1 ua i q) =
       ljust 2 (str_nat (i + 1)) @ py '' '' @
       ljust 5 (case ua (int i) of None \<Rightarrow> py ''-''
                | Some a \<Rightarrow> if a = [] then py ''-'' else a) @ py '' '' @
       ljust 7 (if answer_letter q = [] then py ''?'' else answer_letter q) @ py '' '' @
       (if fst (score_row_v1 ua i q) then check_mark else cross_mark)"
    by (simp add: score_row_v1_def Let_def split: option.splits)
  show "snd (submit_row ua i q) =
       py ''Q'' @ str_nat (i + 1) @ py '': '' @
       (if fst (submit_row ua i q) then heavy_check else heavy_cross) @
       py ''  Your: '' @
       (case ua (int i) of None \<Rightarrow> py ''(blank)''
        | Some a \<Rightarrow> if a = [] then py ''(blank)'' else a) @
       py ''   Correct: '' @ answer_letter q"
    by (simp add: submit_row_def Let_def split: option.splits)
qed (use assms in \<open>simp_all add: submit_quiz_v1_def submit_quiz_def Let_def
      score_loop_v1_eq submit_loop_eq\<close>)

theorem report_layout_witness:
  "submit_quiz_v1
     (record_answer (py ''B'') (init_app\<lparr> questions := scenario_questions \<rparr>)) =
     Some (1, py ''Score: 1/2  (50.0%)'' @ [10, 10] @
              py ''#  Your  Correct  '' @ check_mark @ py ''/'' @ cross_mark @ [10] @
              py ''1  B     B       '' @ check_mark @ [10] @
              py ''2  -     C       '' @ cross_mark) \<and>
   format_1f (pct_main 23 80) = py ''28.8'' \<and>
   format_1f (pct_v1 23 80) = py ''28.7''"
  using report_layout [where
      self = "record_answer (py ''B'') (init_app\<lparr> questions := scenario_questions \<rparr>)"
      and ua = Map.empty and i = 0 and q = "hd scenario_questions" and x = "pct_main 23 80"]
  by (simp add: Let_def scenario_questions_def init_app_def score_defs text_defs
      enumerate_eq_zip str_nat_digit replicate_pad pct_half_Suc pct_revisions_differ)

text \<open>
  In \<open>quiz_app.py\<close> the text of a two-question session begins with \<open>Results:\<close>,
  the score line comes last, and the unanswered question shows \<open>(blank)\<close>.
\<close>

theorem report_begins_with_results:
  "submit_quiz
     (record_answer (py ''B'') (init_app\<lparr> questions := scenario_questions \<rparr>)) =
     Some (1, py ''Results:'' @ [10, 10] @
              py ''Q1: '' @ heavy_check @ py ''  Your: B   Correct: B'' @ [10] @
              py ''Q2: '' @ heavy_cross @ py ''  Your: (blank)   Correct: C'' @ [10, 10] @
              py ''Score: 1/2  (50.0%)'' @ [10]) \<and>
   map_option (\<lambda>(c, summary). startswith summary (py ''Score:''))
     (submit_quiz
       (record_answer (py ''B'') (init_app\<lparr> questions := scenario_questions \<rparr>))) =
     Some False"
  by (simp add: Let_def scenario_questions_def init_app_def score_defs text_defs
      enumerate_eq_zip str_nat_digit pct_half_Suc)

section \<open>Scoring an undeterminable question\<close>

text \<open>
  When each revision marks a question correct. The earlier revisions ask for a
  non-empty answer letter that the recorded answer equals. \<open>quiz_app.py\<close> asks
  only that the recorded answer, or \<open>(blank)\<close> when there is none, equals the
  answer letter; in a session the recorded answers are letters and \<open>(blank)\<close> is
  no answer letter, so the two tests agree.
\<close>

lemma score_row_v1_correct_iff:
  "fst (score_row_v1 ua i q) \<longleftrightarrow> answer_letter q \<noteq> [] \<and> ua (int i) = Some (answer_letter q)"
  by (auto simp: score_row_v1_def Let_def split: option.splits)

lemma submit_row_correct_iff:
  "fst (submit_row ua i q) \<longleftrightarrow>
     (case ua (int i) of None \<Rightarrow> answer_letter q = py ''(blank)''
      | Some a \<Rightarrow> a = answer_letter q)"
  by (auto simp: submit_row_def Let_def split: option.splits)

lemma first_letter_range: "first_letter s = [] \<or> first_letter s \<in> set LETTER_CHOICES"
  by (induction s) auto

lemma extract_correct_letter_range:
  "extract_correct_letter v = [] \<or> extract_correct_letter v \<in> set LETTER_CHOICES"
  using first_letter_range by (cases v) (simp_all add: extract_correct_letter_def)

lemma parse_item_letter:
  "parse_item r item = Some q \<Longrightarrow> answer_letter q = [] \<or> answer_letter q \<in> set LETTER_CHOICES"
proof (cases item)
  case (PDict d)
  assume "parse_item r item = Some q"
  with PDict obtain ans where "answer_letter q = extract_correct_letter ans"
    by (auto simp: parse_item_def split: option.splits)
  with extract_correct_letter_range [of ans] show ?thesis by simp
qed (simp_all add: parse_item_def)

lemma parse_loop_letters:
  "\<forall>q \<in> set parsed. answer_letter q = [] \<or> answer_letter q \<in> set LETTER_CHOICES \<Longrightarrow>
   \<forall>q \<in> set (parse_loop r parsed items).
      answer_letter q = [] \<or> answer_letter q \<in> set LETTER_CHOICES"
proof (induction items arbitrary: parsed)
  case Nil
  then show ?case by simp
next
  case (Cons item items)
  show ?case
  proof (cases "parse_item r item")
    case None
    with Cons show ?thesis by simp
  next
    case (Some q)
    with Cons.prems parse_item_letter [OF Some]
    have "\<forall>x \<in> set (parsed @ [q]). answer_letter x = [] \<or> answer_letter x \<in> set LETTER_CHOICES"
      by auto
    from Cons.IH [OF this] Some show ?thesis by simp
  qed
qed

lemma parse_questions_letters:
  "\<forall>q \<in> set (parse_questions_list r items).
      answer_letter q = [] \<or> answer_letter q \<in> set LETTER_CHOICES"
  unfolding parse_questions_list_def by (rule parse_loop_letters) simp

lemma button_letter: "i < 4 \<Longrightarrow> LETTER_CHOICES ! i \<in> set LETTER_CHOICES"
proof -
  assume "i < 4"
  moreover have "length LETTER_CHOICES = 4" by (simp add: LETTER_CHOICES_def)
  ultimately show ?thesis by (simp only: nth_mem)
qed

lemma commit_parsed_letters:
  assumes "letters_only self"
    and "\<forall>q \<in> set parsed. answer_letter q = [] \<or> answer_letter q \<in> set LETTER_CHOICES"
  shows "letters_only (snd (commit_parsed parsed sl ss self))"
  using assms by (simp add: commit_parsed_def letters_only_def load_question_def)

lemma letters_only_metadata: "letters_only (self\<lparr> metadata := md \<rparr>) = letters_only self"
  by (simp add: letters_only_def)

lemma load_letters:
  assumes "letters_only self"
  shows "letters_only (snd (load_from_data r data self))"
proof (cases data)
  case (PList items)
  have a: "letters_only (self\<lparr> metadata := [] \<rparr>)"
    using assms by (simp add: letters_only_metadata)
  from commit_parsed_letters [OF a parse_questions_letters] PList show ?thesis
    by (simp add: load_from_data_def)
next
  case (PDict d)
  show ?thesis
  proof (cases "dict_get d (py ''questions'')")
    case None
    with PDict assms show ?thesis by (simp add: load_from_data_def letters_only_metadata)
  next
    case (Some v)
    show ?thesis
    proof (cases v)
      case (PList qs)
      have "letters_only (case dict_get d (py ''metadata'') of
                Some (PDict md) \<Rightarrow> self\<lparr> metadata := [] \<rparr>\<lparr> metadata := md \<rparr>
              | _ \<Rightarrow> self\<lparr> metadata := [] \<rparr>)"
        using assms by (simp add: letters_only_def split: option.splits pyval.splits)
      from commit_parsed_letters [OF this parse_questions_letters]
        \<open>data = PDict d\<close> Some PList show ?thesis
        by (simp add: load_from_data_def Let_def)
    qed (use \<open>data = PDict d\<close> Some assms in
          \<open>simp_all add: load_from_data_def letters_only_metadata\<close>)
  qed
qed (use assms in \<open>simp_all add: load_from_data_def letters_only_metadata\<close>)

lemma step_letters:
  assumes "letters_only self"
  shows "letters_only (step r self ev)"
proof (cases ev)
  case (Open data)
  with assms show ?thesis by (simp add: load_letters)
next
  case (Pick i)
  with assms show ?thesis
    by (auto simp: letters_only_def record_choice_def button_letter)
next
  case Next
  with assms show ?thesis
    by (simp add: letters_only_def next_question_def load_question_def)
next
  case Previous
  with assms show ?thesis
    by (simp add: letters_only_def prev_question_def load_question_def)
next
  case Jump
  with assms show ?thesis
    by (simp add: letters_only_def jump_unanswered_def load_question_def split: option.splits)
next
  case ToggleLearning
  with assms show ?thesis by (simp add: letters_only_def)
next
  case ToggleSlides
  with assms show ?thesis by (simp add: letters_only_def)
qed

lemma run_letters: "letters_only (run r events)"
proof (induction events rule: rev_induct)
  case Nil
  show ?case by (simp add: run_def letters_only_def init_app_def)
next
  case (snoc ev events)
  then show ?case by (simp add: run_def step_letters)
qed

lemma blank_not_letter: "py ''(blank)'' \<noteq> [] \<and> py ''(blank)'' \<notin> set LETTER_CHOICES"
  by (simp add: py_def LETTER_CHOICES_def)

lemma submit_row_guarded:
  assumes "letters_only self" and "q \<in> set (questions self)"
  shows "fst (submit_row (user_answers self) i q) \<longleftrightarrow>
           answer_letter q \<noteq> [] \<and> user_answers self (int i) = Some (answer_letter q)"
proof (cases "user_answers self (int i)")
  case None
  from assms have "answer_letter q = [] \<or> answer_letter q \<in> set LETTER_CHOICES"
    by (simp add: letters_only_def)
  with blank_not_letter have "answer_letter q \<noteq> py ''(blank)''" by auto
  with None show ?thesis by (simp add: submit_row_correct_iff)
next
  case (Some a)
  with assms(1) have "a \<in> set LETTER_CHOICES" by (simp add: letters_only_def)
  then have "a \<noteq> []" by (auto simp: LETTER_CHOICES_def py_def)
  with Some show ?thesis by (auto simp: submit_row_correct_iff)
qed

lemma same_count:
  assumes "letters_only self"
  shows "map_option fst (submit_quiz self) = map_option fst (submit_quiz_v1 self)"
proof -
  have "fst (submit_row (user_answers self) i q) = fst (score_row_v1 (user_answers self) i q)"
    if "(i, q) \<in> set (enumerate 0 (questions self))" for i q
  proof -
    from that have "q \<in> set (questions self)" by (auto simp: in_set_enumerate_eq)
    with assms show ?thesis by (simp add: submit_row_guarded score_row_v1_correct_iff)
  qed
  then have "filter (\<lambda>(i, q). fst (submit_row (user_answers self) i q))
        (enumerate 0 (questions self)) =
      filter (\<lambda>(i, q). fst (score_row_v1 (user_answers self) i q))
        (enumerate 0 (questions self))"
    by (intro filter_cong) auto
  then show ?thesis
    by (simp add: submit_quiz_def submit_quiz_v1_def Let_def submit_loop_eq score_loop_v1_eq)
qed

text \<open>
  Claim C1. In every session, whatever was opened, picked and navigated, and for
  every question of the quiz, \<open>submit_quiz\<close> of \<open>quiz_app.py\<close> marks the question
  correct exactly when its answer letter is not empty and the recorded answer
  equals it; the earlier revisions do so for every answer map, an empty recorded
  answer included. So a question with an empty answer letter is never marked
  correct, and the number of correct answers that \<open>quiz_app.py\<close> reports is the
  one the earlier revisions report.
\<close>

theorem scorer_marks_only_matches:
  "(q \<in> set (questions (run r events)) \<longrightarrow>
      (fst (submit_row (user_answers (run r events)) i q) \<longleftrightarrow>
         answer_letter q \<noteq> [] \<and>
         user_answers (run r events) (int i) = Some (answer_letter q))) \<and>
   (fst (score_row_v1 ua i q) \<longleftrightarrow> answer_letter q \<noteq> [] \<and> ua (int i) = Some (answer_letter q)) \<and>
   (q \<in> set (questions (run r events)) \<and> answer_letter q = [] \<longrightarrow>
      \<not> fst (submit_row (user_answers (run r events)) i q)) \<and>
   (answer_letter q = [] \<longrightarrow> \<not> fst (score_row_v1 ua i q)) \<and>
   map_option fst (submit_quiz (run r events)) = map_option fst (submit_quiz_v1 (run r events))"
  using submit_row_guarded [OF run_letters, of q r events i] score_row_v1_correct_iff [of ua i q]
    same_count [OF run_letters, of r events]
  by simp

theorem scorer_marks_only_matches_witness:
  "questions (run (\<lambda>v. []) [Open undetermined_document, Next, Pick 1]) =
     \<lparr> question = py ''Q0'', answer_letter = [], options = None, explanation = PStr [] \<rparr> #
     scenario_questions \<and>
   user_answers (run (\<lambda>v. []) [Open undetermined_document, Next, Pick 1]) 1 = Some (py ''B'') \<and>
   user_answers (run (\<lambda>v. []) [Open undetermined_document, Next, Pick 1]) 0 = None \<and>
   \<not> fst (submit_row (user_answers (run (\<lambda>v. []) [Open undetermined_document, Next, Pick 1])) 0
          \<lparr> question = py ''Q0'', answer_letter = [], options = None, explanation = PStr [] \<rparr>) \<and>
   fst (submit_row (user_answers (run (\<lambda>v. []) [Open undetermined_document, Next, Pick 1])) 1
          (hd scenario_questions)) \<and>
   map_option fst (submit_quiz (run (\<lambda>v. []) [Open undetermined_document, Next, Pick 1])) =
     Some 1"
  using scorer_marks_only_matches [where r = "\<lambda>v. []"
      and events = "[Open undetermined_document, Next, Pick 1]" and i = 0
      and q = "\<lparr> question = py ''Q0'', answer_letter = [], options = None,
                  explanation = PStr [] \<rparr>"
      and ua = Map.empty]
    scorer_marks_only_matches [where r = "\<lambda>v. []"
      and events = "[Open undetermined_document, Next, Pick 1]" and i = 1
      and q = "hd scenario_questions" and ua = "[1 \<mapsto> py ''B'']"]
  by (simp add: run_def undetermined_document_def scenario_entries_def scenario_questions_def
      init_app_def load_defs text_defs next_question_def record_choice_def submit_quiz_def
      submit_row_def submit_quiz_v1_def score_row_v1_def Let_def heavy_check_def
      heavy_cross_def check_mark_def cross_mark_def ljust_def)

end
